theory Spec2Isabelle
  imports Main "HOL-Library.Word"
begin

unbundle bit_operations_syntax

section \<open>Data model\<close>

text \<open>
  Go's \<^verbatim>\<open>byte\<close> is an 8-bit word and \<^verbatim>\<open>uint16\<close> a 16-bit word. A value of type
  \<^verbatim>\<open>[]byte\<close> is either the nil slice (\<open>None\<close>) or a sequence of bytes; the distinction
  matters because the loops test \<^verbatim>\<open>data == nil\<close>. A \<^verbatim>\<open>uuid.UUID\<close> is a \<^verbatim>\<open>[16]byte\<close>;
  a \<^verbatim>\<open>net.Conn\<close> is identified by a number.
\<close>

type_synonym byte = "8 word"
type_synonym slice = "byte list option"
type_synonym uuid = "byte list"
type_synonym conn_ref = nat

text \<open>
  What a function of the engine does with control: \<open>Next\<close> is \<^verbatim>\<open>continue\<close> (or falling
  through to the next loop test), \<open>Exit\<close> is \<^verbatim>\<open>break\<close> or \<^verbatim>\<open>return\<close>, \<open>Blocks\<close> is a
  receive or a device read that has nothing to deliver, \<open>Panics\<close> is a run-time panic
  (send on a closed channel, close of a closed channel, slice bounds out of range).
\<close>

datatype 's res = Next 's | Exit 's | Blocks | Panics

subsection \<open>encoding/binary, big endian\<close>

text \<open>
  \<^verbatim>\<open>PutUint16(b, v)\<close>: \<^verbatim>\<open>b[0] = byte(v >> 8); b[1] = byte(v)\<close>. The source only calls it
  on \<^verbatim>\<open>data[:2]\<close> of a 65535-byte buffer, so the bounds check of the library never fires;
  the model writes through to the buffer that the slice aliases.
\<close>

definition PutUint16 :: "byte list \<Rightarrow> 16 word \<Rightarrow> byte list" where
  "PutUint16 b v = b[0 := ucast (drop_bit 8 v), 1 := ucast v]"

text \<open>\<^verbatim>\<open>Uint16(b)\<close>: \<^verbatim>\<open>uint16(b[1]) | uint16(b[0])<<8\<close>.\<close>

definition Uint16 :: "byte list \<Rightarrow> 16 word" where
  "Uint16 b = ucast (b ! 1) OR push_bit 8 (ucast (b ! 0))"

text \<open>\<^verbatim>\<open>make([]byte, 0xFFFF)\<close>: 65535 zero bytes.\<close>

definition make_data :: "byte list" where
  "make_data = replicate 0xFFFF 0"

text \<open>
  Copying \<open>src\<close> into a buffer from offset \<open>off\<close> on (the callee fills a sub-slice).
  The buffer keeps its length.
\<close>

definition store :: "byte list \<Rightarrow> nat \<Rightarrow> byte list \<Rightarrow> byte list" where
  "store data off src =
     take (length data) (take off data @ src @ drop (off + length src) data)"

subsection \<open>Streams and io.ReadFull\<close>

text \<open>
  The read side of a carrier is the finite sequence of bytes that still arrives on it,
  together with the error its \<^verbatim>\<open>Read\<close> reports once they are used up: \<open>EOF\<close> when the
  peer closed, \<open>ErrDeadline\<close> when the read deadline passed, \<open>ErrClosed\<close> when the
  connection was closed locally or reset. \<^verbatim>\<open>io.ReadFull\<close> fills the whole buffer or fails:
  \<open>EOF\<close> only if no byte was read, \<open>ErrUnexpectedEOF\<close> if the stream ended after some
  but not all bytes, any other error as it is.
\<close>

datatype io_error = EOF | ErrUnexpectedEOF | ErrDeadline | ErrClosed

definition ReadFull :: "byte list \<Rightarrow> io_error \<Rightarrow> nat \<Rightarrow> io_error + (byte list \<times> byte list)" where
  "ReadFull rx e n =
     (if n \<le> length rx then Inr (take n rx, drop n rx)
      else Inl (if e = EOF \<and> rx \<noteq> [] then ErrUnexpectedEOF else e))"

subsection \<open>The TUN device\<close>

text \<open>
  The device holds the datagrams the kernel has queued for reading and the ones written
  to it. \<^verbatim>\<open>Read(buf)\<close> delivers one datagram per call and stores at most \<^verbatim>\<open>len(buf)\<close>
  bytes of it; it fails once the handle is closed and blocks while nothing is queued.
\<close>

record tun =
  pending :: "byte list list"
  written :: "byte list list"
  tun_closed :: bool

definition device_Read :: "tun \<Rightarrow> nat \<Rightarrow> ((io_error + (int \<times> byte list)) \<times> tun) option" where
  "device_Read dev m =
     (if tun_closed dev then Some (Inl ErrClosed, dev)
      else case pending dev of
             [] \<Rightarrow> None
           | d # ds \<Rightarrow> Some (Inr (int (min (length d) m), take m d), dev\<lparr>pending := ds\<rparr>))"

definition device_Write :: "tun \<Rightarrow> byte list \<Rightarrow> (io_error option \<times> tun)" where
  "device_Write dev data =
     (if tun_closed dev then (Some ErrClosed, dev)
      else (None, dev\<lparr>written := written dev @ [data]\<rparr>))"

definition device_Close :: "tun \<Rightarrow> tun" where
  "device_Close dev = dev\<lparr>tun_closed := True\<rparr>"

subsection \<open>Channels of byte slices\<close>

text \<open>
  A channel made by \<^verbatim>\<open>make(chan []byte, n)\<close>: the elements in its buffer, its capacity
  (0 for an unbuffered channel), whether it is closed, the number of receivers parked
  in \<^verbatim>\<open><-ch\<close>, and the values that were handed directly to parked receivers which have
  not resumed yet.

  \<open>chan_try_send\<close> is the \<^verbatim>\<open>select { case ch <- x: ... default: ... }\<close> of the source,
  in the order of the run-time's send: it panics on a closed channel; when a receiver
  is parked the value is handed to it, whatever the capacity; otherwise the value is
  put into the buffer when there is room; otherwise the default branch is taken.

  \<open>chan_recv\<close> is \<^verbatim>\<open><-ch\<close> where it completes at once: the oldest element of the
  buffer, or the zero value (nil) from a closed and empty channel; \<open>None\<close> says that the
  receive blocks. A receiver that blocks is parked (\<open>chan_park\<close>) and resumes with the
  value handed to it (\<open>chan_wake\<close>). \<^verbatim>\<open>close(ch)\<close> panics on a closed channel and hands
  nil to every parked receiver.
\<close>

record chan =
  buf :: "slice list"
  capacity :: nat
  closed :: bool
  recvq :: nat
  handed :: "slice list"

datatype send_result = Sent chan | WouldBlock | SendOnClosed

definition chan_try_send :: "chan \<Rightarrow> slice \<Rightarrow> send_result" where
  "chan_try_send ch x =
     (if closed ch then SendOnClosed
      else if 0 < recvq ch then Sent (ch\<lparr>recvq := recvq ch - 1, handed := handed ch @ [x]\<rparr>)
      else if length (buf ch) < capacity ch then Sent (ch\<lparr>buf := buf ch @ [x]\<rparr>)
      else WouldBlock)"

definition chan_recv :: "chan \<Rightarrow> (slice \<times> chan) option" where
  "chan_recv ch =
     (case buf ch of
        x # xs \<Rightarrow> Some (x, ch\<lparr>buf := xs\<rparr>)
      | [] \<Rightarrow> if closed ch then Some (None, ch) else None)"

definition chan_park :: "chan \<Rightarrow> chan" where
  "chan_park ch = ch\<lparr>recvq := recvq ch + 1\<rparr>"

definition chan_wake :: "chan \<Rightarrow> (slice \<times> chan) option" where
  "chan_wake ch =
     (case handed ch of
        x # xs \<Rightarrow> Some (x, ch\<lparr>handed := xs\<rparr>)
      | [] \<Rightarrow> None)"

definition chan_close :: "chan \<Rightarrow> chan option" where
  "chan_close ch =
     (if closed ch then None
      else Some (ch\<lparr>closed := True, recvq := 0,
                    handed := handed ch @ replicate (recvq ch) None\<rparr>))"

text \<open>
  \<^verbatim>\<open>for i := range ch { if i == nil { break } }\<close>: receives until the channel is closed
  and empty, and stops early at a nil element. On a channel that is not closed the loop
  blocks once the buffer is empty.
\<close>

fun range_until_nil :: "slice list \<Rightarrow> slice list option" where
  "range_until_nil [] = None"
| "range_until_nil (i # rest) = (if i = None then Some rest else range_until_nil rest)"

definition chan_drain :: "chan \<Rightarrow> chan option" where
  "chan_drain ch =
     (case range_until_nil (buf ch) of
        Some rest \<Rightarrow> Some (ch\<lparr>buf := rest\<rparr>)
      | None \<Rightarrow> if closed ch then Some (ch\<lparr>buf := []\<rparr>) else None)"

subsection \<open>Connection and ConnectionPool\<close>

record Connection =
  Conn :: conn_ref
  ID :: uuid

type_synonym ConnectionPool = "Connection list"

text \<open>\<^verbatim>\<open>NewConnection\<close>: the id is drawn by \<^verbatim>\<open>uuid.NewRandom\<close>; the draw is a parameter.\<close>

definition NewConnection :: "conn_ref \<Rightarrow> uuid \<Rightarrow> Connection" where
  "NewConnection conn fresh = \<lparr>Conn = conn, ID = fresh\<rparr>"

definition Add :: "ConnectionPool \<Rightarrow> conn_ref \<Rightarrow> uuid \<Rightarrow> ConnectionPool \<times> uuid" where
  "Add list conn fresh =
     (let connection = NewConnection conn fresh in (list @ [connection], ID connection))"

text \<open>\<^verbatim>\<open>Rand\<close>: \<^verbatim>\<open>rand.IntN(n)\<close> is some value in \<open>[0, n)\<close>; \<open>k\<close> is the generator's draw.\<close>

definition Rand :: "ConnectionPool \<Rightarrow> nat \<Rightarrow> Connection option" where
  "Rand list k = (if length list \<le> 0 then None else Some (list ! (k mod length list)))"

definition Count :: "ConnectionPool \<Rightarrow> int" where
  "Count list = int (length list)"

fun Remove_loop :: "uuid \<Rightarrow> ConnectionPool \<Rightarrow> Connection option \<Rightarrow> ConnectionPool
    \<Rightarrow> Connection option \<times> ConnectionPool" where
  "Remove_loop u [] connection list = (connection, list)"
| "Remove_loop u (conn # rest) connection list =
     (if ID conn = u then Remove_loop u rest (Some conn) list
      else Remove_loop u rest connection (list @ [conn]))"

definition Remove :: "ConnectionPool \<Rightarrow> uuid \<Rightarrow> Connection option \<times> ConnectionPool" where
  "Remove list u = Remove_loop u list None []"

section \<open>The engine\<close>

text \<open>
  \<open>Engine\<close> holds the fields that \<^verbatim>\<open>Server\<close> and \<^verbatim>\<open>Client\<close> share, with the same names
  (\<open>id'\<close> for \<^verbatim>\<open>id\<close>); the two structs extend it. Two further fields record effects on
  the outside world: \<open>wire\<close>, the successful writes to carriers in order, and \<open>trace\<close>,
  the order in which handles were closed, carriers added and tasks joined. The
  \<^verbatim>\<open>sync.WaitGroup\<close> counter is not part of the state; \<^verbatim>\<open>Wait\<close> appears in the trace.
\<close>

datatype chan_name = DeviceToRemote | RemoteToDevice

datatype event =
    EvStatus bool
  | EvListenerClose
  | EvDeviceClose
  | EvChanClose chan_name
  | EvPoolAdd conn_ref
  | EvConnClose conn_ref
  | EvCloseAll
  | EvWait
  | EvDrain chan_name

datatype listener = Listening | ListenerClosed

record Engine =
  id' :: uuid
  device :: tun
  status :: bool
  connections :: ConnectionPool
  deviceToRemoteChannel :: chan
  remoteToDeviceChannel :: chan
  wire :: "(conn_ref \<times> byte list) list"
  trace :: "event list"

record Server = Engine +
  ln :: listener

record Client = Engine +
  endpoint :: string
  connectionsCount :: int

definition emit :: "event \<Rightarrow> 'a Engine_scheme \<Rightarrow> 'a Engine_scheme" where
  "emit ev c = c\<lparr>trace := trace c @ [ev]\<rparr>"

definition conn_closed :: "'a Engine_scheme \<Rightarrow> conn_ref \<Rightarrow> bool" where
  "conn_closed c r = (EvConnClose r \<in> set (trace c))"

definition conn_Close :: "conn_ref \<Rightarrow> 'a Engine_scheme \<Rightarrow> 'a Engine_scheme" where
  "conn_Close r c = emit (EvConnClose r) c"

text \<open>
  \<^verbatim>\<open>conn.Write(data)\<close>: one full write. It fails on a connection that is closed, and
  otherwise when the transport fails (\<open>ok = False\<close>); the result is \<^verbatim>\<open>err != nil\<close>.
\<close>

definition conn_Write :: "bool \<Rightarrow> conn_ref \<Rightarrow> byte list \<Rightarrow> 'a Engine_scheme
    \<Rightarrow> bool \<times> 'a Engine_scheme" where
  "conn_Write ok r data c =
     (if ok \<and> \<not> conn_closed c r then (False, c\<lparr>wire := wire c @ [(r, data)]\<rparr>)
      else (True, c))"

definition pool_Add :: "conn_ref \<Rightarrow> uuid \<Rightarrow> 'a Engine_scheme \<Rightarrow> uuid \<times> 'a Engine_scheme" where
  "pool_Add conn fresh c =
     (case Add (connections c) conn fresh of
        (list, u) \<Rightarrow> (u, emit (EvPoolAdd conn) (c\<lparr>connections := list\<rparr>)))"

definition RemoveAndClose :: "uuid \<Rightarrow> 'a Engine_scheme \<Rightarrow> 'a Engine_scheme" where
  "RemoveAndClose u c =
     (case Remove (connections c) u of
        (None, list) \<Rightarrow> c\<lparr>connections := list\<rparr>
      | (Some conn, list) \<Rightarrow> conn_Close (Conn conn) (c\<lparr>connections := list\<rparr>))"

definition RemoveAndCloseAll :: "'a Engine_scheme \<Rightarrow> 'a Engine_scheme" where
  "RemoveAndCloseAll c =
     emit EvCloseAll
       ((fold (\<lambda>conn. conn_Close (Conn conn)) (connections c) c)\<lparr>connections := []\<rparr>)"

subsection \<open>handleDevicePacket (the TUN reader)\<close>

text \<open>
  The part of one iteration after \<^verbatim>\<open>device.Read(data[2:])\<close> returned \<open>size\<close> without
  error, having stored \<open>got\<close> at offset 2. Slicing \<^verbatim>\<open>data[:2+size]\<close> beyond the buffer
  panics.
\<close>

definition handleDevicePacket_publish :: "'a Engine_scheme \<Rightarrow> int \<Rightarrow> byte list
    \<Rightarrow> 'a Engine_scheme res" where
  "handleDevicePacket_publish c size' got =
     (if size' \<le> 0 then Next c
      else
        let data = PutUint16 (store make_data 2 got) (word_of_int size') in
        if int (length data) < 2 + size' then Panics
        else case chan_try_send (deviceToRemoteChannel c) (Some (take (nat (2 + size')) data)) of
               Sent ch \<Rightarrow> Next (c\<lparr>deviceToRemoteChannel := ch\<rparr>)
             | WouldBlock \<Rightarrow> Next c
             | SendOnClosed \<Rightarrow> Panics)"

definition handleDevicePacket_iter :: "'a Engine_scheme \<Rightarrow> 'a Engine_scheme res" where
  "handleDevicePacket_iter c =
     (case device_Read (device c) (length (drop 2 make_data)) of
        None \<Rightarrow> Blocks
      | Some (Inl err, dev) \<Rightarrow> Exit (c\<lparr>device := dev\<rparr>)
      | Some (Inr (size', got), dev) \<Rightarrow> handleDevicePacket_publish (c\<lparr>device := dev\<rparr>) size' got)"

subsection \<open>The carrier read loop (handleConn, handleRemotePacket)\<close>

text \<open>
  One frame: \<^verbatim>\<open>io.ReadFull(conn, data[:2])\<close>, \<^verbatim>\<open>size := Uint16(data[:2])\<close>,
  \<^verbatim>\<open>io.ReadFull(conn, data[:size])\<close>. \<open>None\<close> is each of the three \<^verbatim>\<open>break\<close>s; otherwise
  the result is \<^verbatim>\<open>data[:size]\<close> and the rest of the stream.
\<close>

definition readFrame :: "byte list \<Rightarrow> io_error \<Rightarrow> (byte list \<times> byte list) option" where
  "readFrame rx e =
     (case ReadFull rx e (length (take 2 make_data)) of
        Inl err \<Rightarrow> None
      | Inr (hdr, rx1) \<Rightarrow>
          let data = store make_data 0 hdr; size' = Uint16 (take 2 data) in
          if size' \<le> 0 then None
          else case ReadFull rx1 e (length (take (unat size') data)) of
                 Inl err \<Rightarrow> None
               | Inr (body, rx2) \<Rightarrow> Some (take (unat size') (store data 0 body), rx2))"

definition readLoop_iter :: "'a Engine_scheme \<Rightarrow> byte list \<Rightarrow> io_error
    \<Rightarrow> ('a Engine_scheme \<times> byte list) res" where
  "readLoop_iter c rx e =
     (case readFrame rx e of
        None \<Rightarrow> Exit (c, rx)
      | Some (payload, rx2) \<Rightarrow>
          (case chan_try_send (remoteToDeviceChannel c) (Some payload) of
             Sent ch \<Rightarrow> Next (c\<lparr>remoteToDeviceChannel := ch\<rparr>, rx2)
           | WouldBlock \<Rightarrow> Next (c, rx2)
           | SendOnClosed \<Rightarrow> Panics))"

function readLoop :: "'a Engine_scheme \<Rightarrow> byte list \<Rightarrow> io_error \<Rightarrow> 'a Engine_scheme res" where
  "readLoop c rx e =
     (case readLoop_iter c rx e of
        Next (c', rx') \<Rightarrow> readLoop c' rx' e
      | Exit (c', rx') \<Rightarrow> Exit c'
      | Blocks \<Rightarrow> Blocks
      | Panics \<Rightarrow> Panics)"
  by pat_completeness auto
termination
proof (relation "measure (\<lambda>(c, rx, e). length rx)")
  show "wf (measure (\<lambda>(c :: 'a Engine_scheme, rx :: byte list, e :: io_error). length rx))"
    by simp
next
  fix c :: "'a Engine_scheme" and rx :: "byte list" and e :: io_error
    and x1 :: "'a Engine_scheme \<times> byte list" and c' :: "'a Engine_scheme" and rx' :: "byte list"
  assume it: "readLoop_iter c rx e = Next x1" and x1: "(c', rx') = x1"
  from it x1 obtain payload where fr: "readFrame rx e = Some (payload, rx')"
    by (auto simp: readLoop_iter_def split: option.splits send_result.splits)
  have "length rx' < length rx"
    using fr
    by (auto simp: readFrame_def ReadFull_def Let_def make_data_def
        split: if_splits sum.splits)
  then show "((c', rx', e), (c, rx, e)) \<in> measure (\<lambda>(c, rx, e). length rx)"
    by simp
qed

declare readLoop.simps [simp del]

text \<open>
  \<^verbatim>\<open>Server.handleConn\<close>: the 16-byte id is read under the 3-second deadline (a deadline
  that passes is the stream's \<open>ErrDeadline\<close>), compared with \<^verbatim>\<open>bytes.Equal\<close>, and only
  then is the connection added to the pool. The deferred \<^verbatim>\<open>RemoveAndClose\<close> runs when
  the read loop is left. \<open>fresh\<close> is the handle \<^verbatim>\<open>Add\<close> draws.
\<close>

definition Server_handleConn :: "Server \<Rightarrow> conn_ref \<Rightarrow> byte list \<Rightarrow> io_error \<Rightarrow> uuid
    \<Rightarrow> Server res" where
  "Server_handleConn c conn rx e fresh =
     (case ReadFull rx e 16 of
        Inl err \<Rightarrow> Exit (conn_Close conn c)
      | Inr (uuid, rx1) \<Rightarrow>
          if \<not> (uuid = id' c) then Exit (conn_Close conn c)
          else
            (case pool_Add conn fresh c of
               (u, c1) \<Rightarrow>
                 (case readLoop c1 rx1 e of
                    Next c2 \<Rightarrow> Exit (RemoveAndClose u c2)
                  | Exit c2 \<Rightarrow> Exit (RemoveAndClose u c2)
                  | Blocks \<Rightarrow> Blocks
                  | Panics \<Rightarrow> Panics)))"

text \<open>
  \<^verbatim>\<open>Client.handleRemotePacket(uuid, conn)\<close>: the same loop on a carrier that
  \<^verbatim>\<open>doDialConn\<close> has already added.
\<close>

definition Client_handleRemotePacket :: "Client \<Rightarrow> uuid \<Rightarrow> byte list \<Rightarrow> io_error
    \<Rightarrow> Client res" where
  "Client_handleRemotePacket c u rx e =
     (case readLoop c rx e of
        Next c2 \<Rightarrow> Exit (RemoveAndClose u c2)
      | Exit c2 \<Rightarrow> Exit (RemoveAndClose u c2)
      | Blocks \<Rightarrow> Blocks
      | Panics \<Rightarrow> Panics)"

subsection \<open>handleDevicePacket as a loop\<close>

text \<open>\<^verbatim>\<open>for c.status { ... }\<close>: every iteration takes one datagram off the device.\<close>

function handleDevicePacket :: "'a Engine_scheme \<Rightarrow> 'a Engine_scheme res" where
  "handleDevicePacket c =
     (if status c then
        (case handleDevicePacket_iter c of
           Next c' \<Rightarrow> handleDevicePacket c'
         | Exit c' \<Rightarrow> Exit c'
         | Blocks \<Rightarrow> Blocks
         | Panics \<Rightarrow> Panics)
      else Exit c)"
  by pat_completeness auto
termination
proof (relation "measure (\<lambda>c. length (pending (device c)))")
  show "wf (measure (\<lambda>c :: 'a Engine_scheme. length (pending (device c))))"
    by simp
next
  fix c c' :: "'a Engine_scheme"
  assume "status c" and it: "handleDevicePacket_iter c = Next c'"
  have "length (pending (device c')) < length (pending (device c))"
    using it
    by (auto simp: handleDevicePacket_iter_def handleDevicePacket_publish_def device_Read_def
        Let_def split: option.splits sum.splits if_splits list.splits send_result.splits)
  then show "(c', c) \<in> measure (\<lambda>c. length (pending (device c)))"
    by simp
qed

declare handleDevicePacket.simps [simp del]

subsection \<open>handleDeviceToRemoteChannel (a worker)\<close>

text \<open>
  One iteration. \<open>k\<close> is the draw of \<^verbatim>\<open>rand.IntN\<close> inside \<^verbatim>\<open>Rand\<close> and \<open>ok\<close> says whether
  the transport accepts the write.
\<close>

definition handleDeviceToRemoteChannel_iter :: "nat \<Rightarrow> bool \<Rightarrow> 'a Engine_scheme
    \<Rightarrow> 'a Engine_scheme res" where
  "handleDeviceToRemoteChannel_iter k ok c =
     (case chan_recv (deviceToRemoteChannel c) of
        None \<Rightarrow> Blocks
      | Some (data, ch) \<Rightarrow>
          let c1 = c\<lparr>deviceToRemoteChannel := ch\<rparr> in
          (case data of
             None \<Rightarrow> Next c1
           | Some bytes \<Rightarrow>
               (case Rand (connections c1) k of
                  None \<Rightarrow> Next c1
                | Some conn \<Rightarrow>
                    (case conn_Write ok (Conn conn) bytes c1 of
                       (err, c2) \<Rightarrow>
                         if err then Next (RemoveAndClose (ID conn) c2) else Next c2))))"

text \<open>
  The loop \<^verbatim>\<open>for c.status { ... }\<close>. It need not end, so it runs on a schedule: one
  pair \<open>(k, ok)\<close> per iteration, and \<open>None\<close> when the schedule is used up while the loop
  is still going.
\<close>

fun handleDeviceToRemoteChannel :: "(nat \<times> bool) list \<Rightarrow> 'a Engine_scheme
    \<Rightarrow> 'a Engine_scheme res option" where
  "handleDeviceToRemoteChannel [] c = (if status c then None else Some (Exit c))"
| "handleDeviceToRemoteChannel ((k, ok) # sched) c =
     (if status c then
        (case handleDeviceToRemoteChannel_iter k ok c of
           Next c' \<Rightarrow> handleDeviceToRemoteChannel sched c'
         | Exit c' \<Rightarrow> Some (Exit c')
         | Blocks \<Rightarrow> Some Blocks
         | Panics \<Rightarrow> Some Panics)
      else Some (Exit c))"

declare handleDeviceToRemoteChannel.simps [simp del]

subsection \<open>handleRemoteToDeviceChannel (the TUN writer)\<close>

definition handleRemoteToDeviceChannel_iter :: "'a Engine_scheme \<Rightarrow> 'a Engine_scheme res" where
  "handleRemoteToDeviceChannel_iter c =
     (case chan_recv (remoteToDeviceChannel c) of
        None \<Rightarrow> Blocks
      | Some (data, ch) \<Rightarrow>
          let c1 = c\<lparr>remoteToDeviceChannel := ch\<rparr> in
          (case data of
             None \<Rightarrow> Exit c1
           | Some bytes \<Rightarrow>
               (case device_Write (device c1) bytes of
                  (err, dev) \<Rightarrow> Next (c1\<lparr>device := dev\<rparr>))))"

text \<open>The same schedule-driven loop; here the schedule only counts iterations.\<close>

fun handleRemoteToDeviceChannel :: "nat \<Rightarrow> 'a Engine_scheme \<Rightarrow> 'a Engine_scheme res option" where
  "handleRemoteToDeviceChannel 0 c = (if status c then None else Some (Exit c))"
| "handleRemoteToDeviceChannel (Suc n) c =
     (if status c then
        (case handleRemoteToDeviceChannel_iter c of
           Next c' \<Rightarrow> handleRemoteToDeviceChannel n c'
         | Exit c' \<Rightarrow> Some (Exit c')
         | Blocks \<Rightarrow> Some Blocks
         | Panics \<Rightarrow> Some Panics)
      else Some (Exit c))"

declare handleRemoteToDeviceChannel.simps [simp del]

subsection \<open>Close\<close>

text \<open>
  The statements of \<^verbatim>\<open>Close\<close>, one definition each. Closing a channel that is already
  closed panics; the two \<^verbatim>\<open>range\<close> loops at the end block on a channel that is open.
\<close>

definition set_status :: "bool \<Rightarrow> 'a Engine_scheme \<Rightarrow> 'a Engine_scheme" where
  "set_status b c = emit (EvStatus b) (c\<lparr>status := b\<rparr>)"

definition ln_Close :: "Server \<Rightarrow> Server" where
  "ln_Close c = emit EvListenerClose (c\<lparr>ln := ListenerClosed\<rparr>)"

definition close_device :: "'a Engine_scheme \<Rightarrow> 'a Engine_scheme" where
  "close_device c = emit EvDeviceClose (c\<lparr>device := device_Close (device c)\<rparr>)"

definition close_deviceToRemoteChannel :: "'a Engine_scheme \<Rightarrow> 'a Engine_scheme res" where
  "close_deviceToRemoteChannel c =
     (case chan_close (deviceToRemoteChannel c) of
        None \<Rightarrow> Panics
      | Some ch \<Rightarrow> Next (emit (EvChanClose DeviceToRemote) (c\<lparr>deviceToRemoteChannel := ch\<rparr>)))"

definition close_remoteToDeviceChannel :: "'a Engine_scheme \<Rightarrow> 'a Engine_scheme res" where
  "close_remoteToDeviceChannel c =
     (case chan_close (remoteToDeviceChannel c) of
        None \<Rightarrow> Panics
      | Some ch \<Rightarrow> Next (emit (EvChanClose RemoteToDevice) (c\<lparr>remoteToDeviceChannel := ch\<rparr>)))"

definition Wait :: "'a Engine_scheme \<Rightarrow> 'a Engine_scheme" where
  "Wait c = emit EvWait c"

definition drain_deviceToRemoteChannel :: "'a Engine_scheme \<Rightarrow> 'a Engine_scheme res" where
  "drain_deviceToRemoteChannel c =
     (case chan_drain (deviceToRemoteChannel c) of
        None \<Rightarrow> Blocks
      | Some ch \<Rightarrow> Next (emit (EvDrain DeviceToRemote) (c\<lparr>deviceToRemoteChannel := ch\<rparr>)))"

definition drain_remoteToDeviceChannel :: "'a Engine_scheme \<Rightarrow> 'a Engine_scheme res" where
  "drain_remoteToDeviceChannel c =
     (case chan_drain (remoteToDeviceChannel c) of
        None \<Rightarrow> Blocks
      | Some ch \<Rightarrow> Next (emit (EvDrain RemoteToDevice) (c\<lparr>remoteToDeviceChannel := ch\<rparr>)))"

text \<open>Sequencing: the next statement runs when the one before it completed.\<close>

definition andThen :: "'s res \<Rightarrow> ('s \<Rightarrow> 's res) \<Rightarrow> 's res" where
  "andThen r f = (case r of Next s \<Rightarrow> f s | Exit s \<Rightarrow> Exit s | Blocks \<Rightarrow> Blocks | Panics \<Rightarrow> Panics)"

text \<open>
  What \<^verbatim>\<open>Server.Close\<close> and \<^verbatim>\<open>Client.Close\<close> have in common, from \<^verbatim>\<open>c.device.Close()\<close>
  to the end.
\<close>

definition Close_tail :: "'a Engine_scheme \<Rightarrow> 'a Engine_scheme res" where
  "Close_tail c =
     andThen (close_deviceToRemoteChannel (close_device c)) (\<lambda>c.
     andThen (close_remoteToDeviceChannel c) (\<lambda>c.
     andThen (drain_deviceToRemoteChannel
                (RemoveAndCloseAll (Wait (RemoveAndCloseAll c)))) (\<lambda>c.
     andThen (drain_remoteToDeviceChannel c) Exit)))"

definition Server_Close :: "Server \<Rightarrow> Server res" where
  "Server_Close c = Close_tail (ln_Close (set_status False c))"

definition Client_Close :: "Client \<Rightarrow> Client res" where
  "Client_Close c = Close_tail (set_status False c)"

subsection \<open>main\<close>

text \<open>
  The \<^verbatim>\<open>switch info.Mode\<close> of \<^verbatim>\<open>main\<close>: \<^verbatim>\<open>client(&info)\<close> builds the engine with
  \<^verbatim>\<open>NewClient\<close> (it dials), \<^verbatim>\<open>server(&info)\<close> builds it with \<^verbatim>\<open>NewServer\<close> (it listens);
  any other value falls out of the switch and \<^verbatim>\<open>main\<close> returns.
\<close>

datatype engine = ClientEngine | ServerEngine | NoEngine

definition main_switch :: "string \<Rightarrow> engine" where
  "main_switch mode =
     (if mode = ''client'' then ClientEngine
      else if mode = ''server'' then ServerEngine
      else NoEngine)"

subsection \<open>NewServer, NewClient\<close>

text \<open>
  The struct literals of the constructors: \<^verbatim>\<open>status: true\<close>, an empty pool and two
  open channels of the configured capacities (\<^verbatim>\<open>make(chan []byte, size)\<close>, so 0 and
  unbuffered when the option is left out). The
  parameters are the fields of \<^verbatim>\<open>Config\<close> that reach the struct; the device starts with
  nothing queued.
\<close>

definition new_chan :: "nat \<Rightarrow> chan" where
  "new_chan n = \<lparr>buf = [], capacity = n, closed = False, recvq = 0, handed = []\<rparr>"

definition new_tun :: tun where
  "new_tun = \<lparr>pending = [], written = [], tun_closed = False\<rparr>"

definition NewServer :: "uuid \<Rightarrow> nat \<Rightarrow> nat \<Rightarrow> Server" where
  "NewServer cfg_ID cfg_DeviceToRemoteBufferSize cfg_RemoteToDeviceBufferSize =
     \<lparr>id' = cfg_ID, device = new_tun, status = True, connections = [],
      deviceToRemoteChannel = new_chan cfg_DeviceToRemoteBufferSize,
      remoteToDeviceChannel = new_chan cfg_RemoteToDeviceBufferSize,
      wire = [], trace = [], ln = Listening\<rparr>"

definition NewClient :: "uuid \<Rightarrow> string \<Rightarrow> int \<Rightarrow> nat \<Rightarrow> nat \<Rightarrow> Client" where
  "NewClient cfg_ID cfg_Endpoint cfg_ConnectionCount cfg_DeviceToRemoteBufferSize
       cfg_RemoteToDeviceBufferSize =
     \<lparr>id' = cfg_ID, device = new_tun, status = True, connections = [],
      deviceToRemoteChannel = new_chan cfg_DeviceToRemoteBufferSize,
      remoteToDeviceChannel = new_chan cfg_RemoteToDeviceBufferSize,
      wire = [], trace = [], endpoint = cfg_Endpoint, connectionsCount = cfg_ConnectionCount\<rparr>"

section \<open>Properties\<close>

subsection \<open>Buffers and the length header\<close>

lemma length_make_data: "length make_data = 65535"
  by (simp add: make_data_def)

lemma be16_join_split:
  "(ucast (ucast v :: byte) :: 16 word) OR push_bit 8 (ucast (ucast (drop_bit 8 v) :: byte)) = v"
  by (rule bit_word_eqI) (auto simp: bit_simps)

lemma length_PutUint16: "length (PutUint16 b v) = length b"
  by (simp add: PutUint16_def)

lemma PutUint16_append: "length h = 2 \<Longrightarrow> PutUint16 (h @ t) v = PutUint16 [0, 0] v @ t"
  by (cases h; cases "tl h") (auto simp: PutUint16_def)

lemma length_header: "length (PutUint16 [0, 0] v) = 2"
  by (simp add: PutUint16_def)

lemma Uint16_header: "Uint16 (PutUint16 [0, 0] v @ t) = v"
  by (simp add: Uint16_def PutUint16_def be16_join_split)

lemma length_store: "length (store data off src) = length data"
  by (simp add: store_def)

lemma store_at_2:
  assumes "2 + length got \<le> length data"
  shows "take (2 + length got) (PutUint16 (store data 2 got) v) = PutUint16 [0, 0] v @ got"
proof -
  have "store data 2 got = take 2 data @ (got @ drop (2 + length got) data)"
    using assms by (simp add: store_def)
  moreover have "length (take 2 data) = 2" using assms by simp
  ultimately have "PutUint16 (store data 2 got) v = PutUint16 [0, 0] v @ got @ drop (2 + length got) data"
    by (simp only: PutUint16_append)
  then show ?thesis by (simp add: length_header)
qed

lemma publish_frame:
  assumes "got \<noteq> []" and "length got \<le> 65533"
  shows "handleDevicePacket_publish c (int (length got)) got =
     (case chan_try_send (deviceToRemoteChannel c)
             (Some (PutUint16 [0, 0] (word_of_int (int (length got))) @ got)) of
        Sent ch \<Rightarrow> Next (c\<lparr>deviceToRemoteChannel := ch\<rparr>)
      | WouldBlock \<Rightarrow> Next c
      | SendOnClosed \<Rightarrow> Panics)"
proof -
  have len: "2 + length got \<le> length make_data"
    using assms by (simp add: length_make_data)
  have "length (store make_data 2 got) = length make_data"
    by (simp add: length_store)
  then have big: "\<not> int (length (PutUint16 (store make_data 2 got) (word_of_int (int (length got)))))
      < 2 + int (length got)"
    using len by (simp add: length_PutUint16)
  have "nat (2 + int (length got)) = 2 + length got" by simp
  then show ?thesis
    using assms(1) big store_at_2 [OF len]
    by (simp add: handleDevicePacket_publish_def Let_def)
qed

lemma readFrame_frame:
  assumes "v \<noteq> 0" and "length p = unat v"
  shows "readFrame (PutUint16 [0, 0] v @ p @ rest) e = Some (p, rest)"
proof -
  have v: "unat v \<le> 65535" using unsigned_less [of v, where ?'a = nat] by simp
  have a: "ReadFull (PutUint16 [0, 0] v @ p @ rest) e 2 = Inr (PutUint16 [0, 0] v, p @ rest)"
    by (simp add: ReadFull_def length_header)
  have b: "take 2 (store make_data 0 (PutUint16 [0, 0] v)) = PutUint16 [0, 0] v"
    by (simp add: store_def length_header length_make_data)
  have c: "Uint16 (PutUint16 [0, 0] v) = v"
    using Uint16_header [of v "[]"] by simp
  have d: "length (take (unat v) (store make_data 0 (PutUint16 [0, 0] v))) = unat v"
    using v by (simp add: store_def length_header length_make_data)
  have e: "ReadFull (p @ rest) e (unat v) = Inr (p, rest)"
    using assms(2) by (simp add: ReadFull_def)
  have f: "take (unat v) (store (store make_data 0 (PutUint16 [0, 0] v)) 0 p) = p"
    using assms(2) v by (simp add: store_def length_header length_make_data)
  have l2: "length (take 2 make_data) = 2"
    by (simp add: length_make_data)
  have g: "\<not> v \<le> 0" using assms(1) by simp
  show ?thesis
    unfolding readFrame_def Let_def
    by (simp only: l2 a b c d e f g sum.case prod.case if_False)
qed

lemma handleDevicePacket_iter_datagram:
  assumes "\<not> tun_closed (device c)" and "pending (device c) = d # ds"
  shows "handleDevicePacket_iter c =
     handleDevicePacket_publish (c\<lparr>device := (device c)\<lparr>pending := ds\<rparr>\<rparr>)
       (int (min (length d) 65533)) (take 65533 d)"
  using assms
  by (simp add: handleDevicePacket_iter_def device_Read_def length_make_data)

lemma unat_word_of_length:
  "n \<le> 65535 \<Longrightarrow> unat (word_of_int (int n) :: 16 word) = n"
  by (simp add: unat_of_nat)

lemma word_of_length_nonzero:
  "0 < n \<Longrightarrow> n \<le> 65535 \<Longrightarrow> (word_of_int (int n) :: 16 word) \<noteq> 0"
  using unat_word_of_length [of n] by (metis unat_0 less_numeral_extra(3))

lemma byte_65535: "(65535 :: 8 word) = 255"
  by (simp add: word_eq_iff_unsigned [where ?'a = nat])

subsection \<open>C1: framing round trip\<close>

text \<open>
  Claim C1. For every payload \<open>p\<close> of length \<open>n\<close> with \<open>1 \<le> n \<le> 65535\<close>, the frame made
  of the 2-byte big-endian length \<open>n\<close> followed by \<open>p\<close> is decoded by the carrier read
  loop (2 header bytes read as \<open>L\<close>, then exactly \<open>L\<close> bytes) to exactly \<open>p\<close>, leaving
  the rest of the stream untouched. The second part ties the frame to the encoder of the
  source: whenever the TUN read handed \<open>p\<close> over (it has room for 65533 bytes), this
  frame is what the reader offers to the outbound queue.
\<close>

theorem frame_roundtrip:
  assumes "1 \<le> length p" and "length p \<le> 65535"
  shows "readFrame (PutUint16 [0, 0] (word_of_int (int (length p))) @ p @ rest) e = Some (p, rest)
    \<and> (length p \<le> 65533 \<longrightarrow>
          handleDevicePacket_publish c (int (length p)) p =
            (case chan_try_send (deviceToRemoteChannel c)
                    (Some (PutUint16 [0, 0] (word_of_int (int (length p))) @ p)) of
               Sent ch \<Rightarrow> Next (c\<lparr>deviceToRemoteChannel := ch\<rparr>)
             | WouldBlock \<Rightarrow> Next c
             | SendOnClosed \<Rightarrow> Panics))"
proof -
  have ne: "p \<noteq> []" using assms(1) by (cases p) simp_all
  have nz: "(word_of_int (int (length p)) :: 16 word) \<noteq> 0"
    using ne assms(2) by (intro word_of_length_nonzero) simp_all
  have len: "length p = unat (word_of_int (int (length p)) :: 16 word)"
    using assms(2) by (simp only: unat_word_of_length)
  have "readFrame (PutUint16 [0, 0] (word_of_int (int (length p))) @ p @ rest) e = Some (p, rest)"
    by (rule readFrame_frame [OF nz len])
  then show ?thesis
    using ne by (simp add: publish_frame)
qed

theorem frame_roundtrip_witness:
  "readFrame ([0, 3, 7, 8, 9] @ [5, 5]) EOF = Some ([7, 8, 9], [5, 5])
   \<and> readFrame ([0xFF, 0xFF] @ replicate 65535 7 @ [5, 5]) ErrClosed = Some (replicate 65535 7, [5, 5])
   \<and> handleDevicePacket_publish (NewServer (replicate 16 0) 4 4) 3 [7, 8, 9] =
       Next ((NewServer (replicate 16 0) 4 4)\<lparr>deviceToRemoteChannel :=
               \<lparr>buf = [Some [0, 3, 7, 8, 9]], capacity = 4, closed = False, recvq = 0, handed = []\<rparr>\<rparr>)"
  using frame_roundtrip [of "[7, 8, 9]" "[5, 5]" EOF "NewServer (replicate 16 0) 4 4"]
    frame_roundtrip [of "replicate 65535 7" "[5, 5]" ErrClosed "NewServer (replicate 16 0) 4 4"]
  by (simp add: PutUint16_def chan_try_send_def NewServer_def new_chan_def byte_65535)

subsection \<open>Fields left alone by the pool operations\<close>

lemma emit_fields [simp]:
  "wire (emit ev c) = wire c"
  "connections (emit ev c) = connections c"
  "deviceToRemoteChannel (emit ev c) = deviceToRemoteChannel c"
  "remoteToDeviceChannel (emit ev c) = remoteToDeviceChannel c"
  "device (emit ev c) = device c"
  "status (emit ev c) = status c"
  "id' (emit ev c) = id' c"
  "trace (emit ev c) = trace c @ [ev]"
  by (simp_all add: emit_def)

lemma conn_Close_fields [simp]:
  "wire (conn_Close r c) = wire c"
  "connections (conn_Close r c) = connections c"
  "deviceToRemoteChannel (conn_Close r c) = deviceToRemoteChannel c"
  "remoteToDeviceChannel (conn_Close r c) = remoteToDeviceChannel c"
  "device (conn_Close r c) = device c"
  "status (conn_Close r c) = status c"
  "id' (conn_Close r c) = id' c"
  "trace (conn_Close r c) = trace c @ [EvConnClose r]"
  by (simp_all add: conn_Close_def)

lemma Remove_loop_eq:
  "Remove_loop u xs connection acc =
     ((case filter (\<lambda>x. ID x = u) xs of [] \<Rightarrow> connection | y # ys \<Rightarrow> Some (last (y # ys))),
      acc @ filter (\<lambda>x. ID x \<noteq> u) xs)"
  by (induction xs arbitrary: connection acc) (auto split: list.splits)

lemma Remove_eq:
  "Remove list u =
     ((case filter (\<lambda>x. ID x = u) list of [] \<Rightarrow> None | y # ys \<Rightarrow> Some (last (y # ys))),
      filter (\<lambda>x. ID x \<noteq> u) list)"
  by (simp add: Remove_def Remove_loop_eq)

lemma RemoveAndClose_fields [simp]:
  "wire (RemoveAndClose u c) = wire c"
  "connections (RemoveAndClose u c) = filter (\<lambda>x. ID x \<noteq> u) (connections c)"
  "deviceToRemoteChannel (RemoveAndClose u c) = deviceToRemoteChannel c"
  "remoteToDeviceChannel (RemoveAndClose u c) = remoteToDeviceChannel c"
  "device (RemoveAndClose u c) = device c"
  "status (RemoveAndClose u c) = status c"
  "id' (RemoveAndClose u c) = id' c"
  by (simp_all add: RemoveAndClose_def Remove_eq split: list.splits)

lemma worker_wire:
  assumes "handleDeviceToRemoteChannel_iter k ok c = Next c'"
  shows "wire c' = wire c \<or>
    (\<exists>r f rest. wire c' = wire c @ [(r, f)] \<and> buf (deviceToRemoteChannel c) = Some f # rest)"
  using assms
  by (auto simp: handleDeviceToRemoteChannel_iter_def chan_recv_def conn_Write_def Let_def
      split: list.splits option.splits if_splits prod.splits)

subsection \<open>What the TUN reader publishes\<close>

lemma header_65533: "PutUint16 [0, 0] 65533 = [0xFF, 0xFD]"
  by (simp add: PutUint16_def)

lemma Uint16_take_PutUint16:
  "2 \<le> n \<Longrightarrow> 2 \<le> length b \<Longrightarrow> Uint16 (take n (PutUint16 b v)) = v"
  by (cases b; cases "tl b") (auto simp: Uint16_def PutUint16_def be16_join_split)

lemma word_of_int_nonzero:
  assumes "0 < i" and "i \<le> 65535"
  shows "(word_of_int i :: 16 word) \<noteq> 0"
proof -
  have "i = int (nat i)" using assms by simp
  moreover have "(word_of_int (int (nat i)) :: 16 word) \<noteq> 0"
    using assms by (intro word_of_length_nonzero) simp_all
  ultimately show ?thesis by simp
qed

lemma publish_Next:
  assumes "handleDevicePacket_publish c size' got = Next c'"
  shows "c' = c \<or>
    (\<exists>f. (c' = c\<lparr>deviceToRemoteChannel := (deviceToRemoteChannel c)
                   \<lparr>buf := buf (deviceToRemoteChannel c) @ [Some f]\<rparr>\<rparr>
          \<or> c' = c\<lparr>deviceToRemoteChannel := (deviceToRemoteChannel c)
                   \<lparr>recvq := recvq (deviceToRemoteChannel c) - 1,
                    handed := handed (deviceToRemoteChannel c) @ [Some f]\<rparr>\<rparr>)
         \<and> length f = nat (2 + size') \<and> Uint16 f = word_of_int size' \<and> Uint16 f \<noteq> 0)"
proof (cases "size' \<le> 0")
  case True
  with assms show ?thesis by (simp add: handleDevicePacket_publish_def)
next
  case False
  define data where "data = PutUint16 (store make_data 2 got) (word_of_int size')"
  have ld: "length data = 65535"
    by (simp add: data_def length_PutUint16 length_store length_make_data)
  have fit: "2 + size' \<le> 65535"
    using assms False ld
    by (auto simp: handleDevicePacket_publish_def Let_def data_def [symmetric] split: if_splits)
  have lf: "length (take (nat (2 + size')) data) = nat (2 + size')"
    using fit ld by simp
  have u: "Uint16 (take (nat (2 + size')) data) = word_of_int size'"
    unfolding data_def using False
    by (intro Uint16_take_PutUint16) (simp_all add: length_store length_make_data)
  have nz: "(word_of_int size' :: 16 word) \<noteq> 0"
    using False fit by (intro word_of_int_nonzero) simp_all
  show ?thesis
    using assms False fit lf u nz
    by (auto simp: handleDevicePacket_publish_def Let_def data_def [symmetric] chan_try_send_def
        split: if_splits)
qed

lemma hand_over_to_parked_receiver:
  assumes "\<not> closed ch" and "recvq ch = 0" and "handed ch = []"
  shows "chan_recv (ch\<lparr>buf := []\<rparr>) = None
    \<and> chan_try_send (chan_park ch) x = Sent (ch\<lparr>handed := [x]\<rparr>)
    \<and> chan_wake (ch\<lparr>handed := [x]\<rparr>) = Some (x, ch)"
  using assms by (simp add: chan_recv_def chan_try_send_def chan_park_def chan_wake_def)

subsection \<open>C2: one iteration of the TUN reader\<close>

text \<open>
  Claim C2 as stated fails on the buffer size: \<^verbatim>\<open>make([]byte, 0xFFFF)\<close> is 65535 bytes,
  not 2 + 65535, so \<^verbatim>\<open>data[2:]\<close> has room for 65533 bytes. With a datagram of 65534
  bytes queued on the device, the slice that is published has 65535 bytes (the header
  says 65533), not 2 + 65534.
\<close>

theorem tun_reader_buffer_counterexample:
  "length make_data \<noteq> 2 + 65535
   \<and> handleDevicePacket_iter
        ((NewServer (replicate 16 0) 1 1)\<lparr>device := new_tun\<lparr>pending := [replicate 65534 1]\<rparr>\<rparr>)
       = Next ((NewServer (replicate 16 0) 1 1)
                \<lparr>device := new_tun\<lparr>pending := []\<rparr>,
                 deviceToRemoteChannel :=
                   \<lparr>buf = [Some ([0xFF, 0xFD] @ replicate 65533 1)], capacity = 1, closed = False, recvq = 0, handed = []\<rparr>\<rparr>)
   \<and> length ([0xFF, 0xFD] @ replicate 65533 (1 :: byte)) \<noteq> 2 + 65534"
proof -
  have a: "length make_data \<noteq> 2 + 65535"
    by (simp add: length_make_data)
  have g: "replicate 65533 (1 :: byte) \<noteq> []" by simp
  have l: "length (replicate 65533 (1 :: byte)) \<le> 65533" by simp
  have p: "handleDevicePacket_publish c 65533 (replicate 65533 1) =
     (case chan_try_send (deviceToRemoteChannel c) (Some ([0xFF, 0xFD] @ replicate 65533 1)) of
        Sent ch \<Rightarrow> Next (c\<lparr>deviceToRemoteChannel := ch\<rparr>)
      | WouldBlock \<Rightarrow> Next c
      | SendOnClosed \<Rightarrow> Panics)" for c :: Server
    using publish_frame [OF g l, of c] by (simp add: header_65533)
  have b: "handleDevicePacket_iter
        ((NewServer (replicate 16 0) 1 1)\<lparr>device := new_tun\<lparr>pending := [replicate 65534 1]\<rparr>\<rparr>)
       = Next ((NewServer (replicate 16 0) 1 1)
                \<lparr>device := new_tun\<lparr>pending := []\<rparr>,
                 deviceToRemoteChannel :=
                   \<lparr>buf = [Some ([0xFF, 0xFD] @ replicate 65533 1)], capacity = 1, closed = False, recvq = 0, handed = []\<rparr>\<rparr>)"
    by (subst handleDevicePacket_iter_datagram [where d = "replicate 65534 1" and ds = "[]"])
       (simp_all add: NewServer_def new_tun_def new_chan_def p chan_try_send_def)
  show ?thesis using a b by simp
qed

text \<open>
  Claim C2, amended. In every iteration in which the device read succeeds with a
  non-empty datagram \<open>d\<close> (and the outbound queue is open, as it is while running), the
  TUN reader has allocated a buffer of 65535 bytes, read the datagram into it at offset
  2 (at most 65533 bytes, \<open>n\<close> of them), written \<open>n\<close> as a 2-byte big-endian value at
  offset 0, and offers the slice \<open>[0, 2+n)\<close> to the outbound queue with a non-blocking
  send: the slice is handed to a worker parked in the receive if there is one, else it
  is put into the buffer when there is room, and else (the queue is full: no parked
  worker, and no room or no buffer at all) the datagram is dropped. In each case the
  iteration ends in \<^verbatim>\<open>continue\<close> without blocking, and while \<^verbatim>\<open>status\<close> is true the loop
  goes on from the resulting state.
\<close>

theorem tun_reader_iteration:
  assumes "\<not> tun_closed (device c)" and "pending (device c) = d # ds" and "d \<noteq> []"
    and "\<not> closed (deviceToRemoteChannel c)"
  shows "length make_data = 65535
    \<and> handleDevicePacket_iter c =
        Next (if 0 < recvq (deviceToRemoteChannel c)
              then c\<lparr>device := (device c)\<lparr>pending := ds\<rparr>,
                     deviceToRemoteChannel := (deviceToRemoteChannel c)
                       \<lparr>recvq := recvq (deviceToRemoteChannel c) - 1,
                        handed := handed (deviceToRemoteChannel c) @
                          [Some (PutUint16 [0, 0] (word_of_int (int (min (length d) 65533)))
                                 @ take 65533 d)]\<rparr>\<rparr>
              else if length (buf (deviceToRemoteChannel c)) < capacity (deviceToRemoteChannel c)
              then c\<lparr>device := (device c)\<lparr>pending := ds\<rparr>,
                     deviceToRemoteChannel := (deviceToRemoteChannel c)
                       \<lparr>buf := buf (deviceToRemoteChannel c) @
                          [Some (PutUint16 [0, 0] (word_of_int (int (min (length d) 65533)))
                                 @ take 65533 d)]\<rparr>\<rparr>
              else c\<lparr>device := (device c)\<lparr>pending := ds\<rparr>\<rparr>)
    \<and> (status c \<longrightarrow>
          handleDevicePacket c =
            handleDevicePacket
              (if 0 < recvq (deviceToRemoteChannel c)
               then c\<lparr>device := (device c)\<lparr>pending := ds\<rparr>,
                      deviceToRemoteChannel := (deviceToRemoteChannel c)
                        \<lparr>recvq := recvq (deviceToRemoteChannel c) - 1,
                         handed := handed (deviceToRemoteChannel c) @
                           [Some (PutUint16 [0, 0] (word_of_int (int (min (length d) 65533)))
                                  @ take 65533 d)]\<rparr>\<rparr>
               else if length (buf (deviceToRemoteChannel c)) < capacity (deviceToRemoteChannel c)
               then c\<lparr>device := (device c)\<lparr>pending := ds\<rparr>,
                      deviceToRemoteChannel := (deviceToRemoteChannel c)
                        \<lparr>buf := buf (deviceToRemoteChannel c) @
                           [Some (PutUint16 [0, 0] (word_of_int (int (min (length d) 65533)))
                                  @ take 65533 d)]\<rparr>\<rparr>
               else c\<lparr>device := (device c)\<lparr>pending := ds\<rparr>\<rparr>))"
proof -
  have g: "take 65533 d \<noteq> []" using assms(3) by (cases d) simp_all
  have l: "length (take 65533 d) \<le> 65533" by simp
  have n: "int (min (length d) 65533) = int (length (take 65533 d))" by simp
  define c' where "c' =
    (if 0 < recvq (deviceToRemoteChannel c)
              then c\<lparr>device := (device c)\<lparr>pending := ds\<rparr>,
                     deviceToRemoteChannel := (deviceToRemoteChannel c)
                       \<lparr>recvq := recvq (deviceToRemoteChannel c) - 1,
                        handed := handed (deviceToRemoteChannel c) @
                          [Some (PutUint16 [0, 0] (word_of_int (int (min (length d) 65533)))
                                 @ take 65533 d)]\<rparr>\<rparr>
              else if length (buf (deviceToRemoteChannel c)) < capacity (deviceToRemoteChannel c)
              then c\<lparr>device := (device c)\<lparr>pending := ds\<rparr>,
                     deviceToRemoteChannel := (deviceToRemoteChannel c)
                       \<lparr>buf := buf (deviceToRemoteChannel c) @
                          [Some (PutUint16 [0, 0] (word_of_int (int (min (length d) 65533)))
                                 @ take 65533 d)]\<rparr>\<rparr>
              else c\<lparr>device := (device c)\<lparr>pending := ds\<rparr>\<rparr>)"
  have it: "handleDevicePacket_iter c = Next c'"
    unfolding c'_def using assms(4)
    by (simp only: handleDevicePacket_iter_datagram [OF assms(1,2)] n publish_frame [OF g l])
       (simp add: chan_try_send_def)
  have lp: "handleDevicePacket c = handleDevicePacket c'" if "status c"
    by (subst handleDevicePacket.simps) (simp add: that it)
  show ?thesis
    using it lp unfolding c'_def by (simp add: length_make_data)
qed

theorem tun_reader_iteration_witness:
  "handleDevicePacket_iter
      ((NewServer (replicate 16 0) 0 0)
         \<lparr>device := new_tun\<lparr>pending := [[1, 2, 3]]\<rparr>,
          deviceToRemoteChannel := chan_park (new_chan 0)\<rparr>)
     = Next ((NewServer (replicate 16 0) 0 0)
              \<lparr>device := new_tun\<lparr>pending := []\<rparr>,
               deviceToRemoteChannel :=
                 \<lparr>buf = [], capacity = 0, closed = False, recvq = 0,
                  handed = [Some [0, 3, 1, 2, 3]]\<rparr>\<rparr>)
   \<and> handleDevicePacket_iter
      ((NewServer (replicate 16 0) 1 1)\<lparr>device := new_tun\<lparr>pending := [[1, 2, 3]]\<rparr>\<rparr>)
     = Next ((NewServer (replicate 16 0) 1 1)
              \<lparr>device := new_tun\<lparr>pending := []\<rparr>,
               deviceToRemoteChannel :=
                 \<lparr>buf = [Some [0, 3, 1, 2, 3]], capacity = 1, closed = False, recvq = 0,
                  handed = []\<rparr>\<rparr>)
   \<and> handleDevicePacket_iter
      ((NewServer (replicate 16 0) 1 1)
         \<lparr>device := new_tun\<lparr>pending := [[1, 2, 3]]\<rparr>,
          deviceToRemoteChannel :=
            \<lparr>buf = [Some [0, 1, 9]], capacity = 1, closed = False, recvq = 0, handed = []\<rparr>\<rparr>)
     = Next ((NewServer (replicate 16 0) 1 1)
         \<lparr>device := new_tun\<lparr>pending := []\<rparr>,
          deviceToRemoteChannel :=
            \<lparr>buf = [Some [0, 1, 9]], capacity = 1, closed = False, recvq = 0, handed = []\<rparr>\<rparr>)
   \<and> handleDevicePacket
      ((NewServer (replicate 16 0) 1 1)
         \<lparr>device := new_tun\<lparr>pending := [[1, 2, 3]]\<rparr>,
          deviceToRemoteChannel :=
            \<lparr>buf = [Some [0, 1, 9]], capacity = 1, closed = False, recvq = 0, handed = []\<rparr>\<rparr>)
     = handleDevicePacket
      ((NewServer (replicate 16 0) 1 1)
         \<lparr>device := new_tun\<lparr>pending := []\<rparr>,
          deviceToRemoteChannel :=
            \<lparr>buf = [Some [0, 1, 9]], capacity = 1, closed = False, recvq = 0, handed = []\<rparr>\<rparr>)"
  using
    tun_reader_iteration [of "(NewServer (replicate 16 0) 0 0)
         \<lparr>device := new_tun\<lparr>pending := [[1, 2, 3]]\<rparr>,
          deviceToRemoteChannel := chan_park (new_chan 0)\<rparr>"
      "[1, 2, 3]" "[]"]
    tun_reader_iteration [of "(NewServer (replicate 16 0) 1 1)\<lparr>device := new_tun\<lparr>pending := [[1, 2, 3]]\<rparr>\<rparr>"
      "[1, 2, 3]" "[]"]
    tun_reader_iteration [of "(NewServer (replicate 16 0) 1 1)
         \<lparr>device := new_tun\<lparr>pending := [[1, 2, 3]]\<rparr>,
          deviceToRemoteChannel :=
            \<lparr>buf = [Some [0, 1, 9]], capacity = 1, closed = False, recvq = 0, handed = []\<rparr>\<rparr>"
      "[1, 2, 3]" "[]"]
  by (simp add: NewServer_def new_tun_def new_chan_def chan_park_def PutUint16_def)

subsection \<open>C9: a read of length zero\<close>

text \<open>
  Claim C9. When the device read succeeds with a length of zero or less, the TUN reader
  publishes nothing and goes on with its loop (first and second part; the second is the
  same for a device that hands over an empty datagram). Whatever the reader does publish,
  into the buffer of the queue or straight to a parked worker, carries a length header
  different from 0 (third part), and a worker writes to a carrier
  only a slice that it took from the outbound queue (fourth part); so no frame of length
  0 is enqueued or written.
\<close>

theorem zero_length_read_publishes_nothing:
  "(size' \<le> 0 \<longrightarrow> handleDevicePacket_publish c size' got = Next c)
   \<and> (\<not> tun_closed (device c) \<and> pending (device c) = [] # ds \<longrightarrow>
        handleDevicePacket_iter c = Next (c\<lparr>device := (device c)\<lparr>pending := ds\<rparr>\<rparr>))
   \<and> (handleDevicePacket_publish c size' got = Next c' \<longrightarrow>
        c' = c \<or>
        (\<exists>f. (c' = c\<lparr>deviceToRemoteChannel := (deviceToRemoteChannel c)
                       \<lparr>buf := buf (deviceToRemoteChannel c) @ [Some f]\<rparr>\<rparr>
              \<or> c' = c\<lparr>deviceToRemoteChannel := (deviceToRemoteChannel c)
                       \<lparr>recvq := recvq (deviceToRemoteChannel c) - 1,
                        handed := handed (deviceToRemoteChannel c) @ [Some f]\<rparr>\<rparr>)
             \<and> length f = nat (2 + size') \<and> Uint16 f = word_of_int size' \<and> Uint16 f \<noteq> 0))
   \<and> (handleDeviceToRemoteChannel_iter k ok c = Next c'' \<longrightarrow>
        wire c'' = wire c \<or>
        (\<exists>r f rest. wire c'' = wire c @ [(r, f)]
             \<and> buf (deviceToRemoteChannel c) = Some f # rest))"
proof -
  have a: "size' \<le> 0 \<longrightarrow> handleDevicePacket_publish c size' got = Next c"
    by (simp add: handleDevicePacket_publish_def)
  have b: "\<not> tun_closed (device c) \<and> pending (device c) = [] # ds \<longrightarrow>
        handleDevicePacket_iter c = Next (c\<lparr>device := (device c)\<lparr>pending := ds\<rparr>\<rparr>)"
    by (simp add: handleDevicePacket_iter_def device_Read_def handleDevicePacket_publish_def)
  show ?thesis
    using a b publish_Next [of c size' got c'] worker_wire [of k ok c c'']
    by blast
qed

theorem zero_length_read_publishes_nothing_witness:
  "handleDevicePacket_publish (NewServer (replicate 16 0) 4 4) 0 [] = Next (NewServer (replicate 16 0) 4 4)
   \<and> handleDevicePacket_publish (NewServer (replicate 16 0) 4 4) (- 1) [] = Next (NewServer (replicate 16 0) 4 4)
   \<and> handleDevicePacket_iter
        ((NewServer (replicate 16 0) 4 4)\<lparr>device := new_tun\<lparr>pending := [[], [1]]\<rparr>\<rparr>)
       = Next ((NewServer (replicate 16 0) 4 4)\<lparr>device := new_tun\<lparr>pending := [[1]]\<rparr>\<rparr>)
   \<and> handleDevicePacket_publish (NewServer (replicate 16 0) 4 4) 3 [7, 8, 9]
       = Next ((NewServer (replicate 16 0) 4 4)\<lparr>deviceToRemoteChannel :=
                 \<lparr>buf = [Some [0, 3, 7, 8, 9]], capacity = 4, closed = False, recvq = 0, handed = []\<rparr>\<rparr>)
   \<and> Uint16 [0, 3, 7, 8, 9] \<noteq> 0
   \<and> handleDeviceToRemoteChannel_iter 0 True
        ((NewServer (replicate 16 0) 4 4)
           \<lparr>connections := [\<lparr>Conn = 7, ID = replicate 16 1\<rparr>],
            deviceToRemoteChannel := \<lparr>buf = [Some [0, 1, 9]], capacity = 4, closed = False, recvq = 0, handed = []\<rparr>\<rparr>)
       = Next ((NewServer (replicate 16 0) 4 4)
           \<lparr>connections := [\<lparr>Conn = 7, ID = replicate 16 1\<rparr>],
            deviceToRemoteChannel := \<lparr>buf = [], capacity = 4, closed = False, recvq = 0, handed = []\<rparr>,
            wire := [(7, [0, 1, 9])]\<rparr>)"
proof -
  have g: "[7, 8, 9 :: byte] \<noteq> []" by simp
  have l: "length [7, 8, 9 :: byte] \<le> 65533" by simp
  have p: "handleDevicePacket_publish (NewServer (replicate 16 0) 4 4) 3 [7, 8, 9]
       = Next ((NewServer (replicate 16 0) 4 4)\<lparr>deviceToRemoteChannel :=
                 \<lparr>buf = [Some [0, 3, 7, 8, 9]], capacity = 4, closed = False, recvq = 0, handed = []\<rparr>\<rparr>)"
    using publish_frame [OF g l, of "NewServer (replicate 16 0) 4 4"]
    by (simp add: PutUint16_def chan_try_send_def NewServer_def new_chan_def)
  have w: "handleDeviceToRemoteChannel_iter 0 True
        ((NewServer (replicate 16 0) 4 4)
           \<lparr>connections := [\<lparr>Conn = 7, ID = replicate 16 1\<rparr>],
            deviceToRemoteChannel := \<lparr>buf = [Some [0, 1, 9]], capacity = 4, closed = False, recvq = 0, handed = []\<rparr>\<rparr>)
       = Next ((NewServer (replicate 16 0) 4 4)
           \<lparr>connections := [\<lparr>Conn = 7, ID = replicate 16 1\<rparr>],
            deviceToRemoteChannel := \<lparr>buf = [], capacity = 4, closed = False, recvq = 0, handed = []\<rparr>,
            wire := [(7, [0, 1, 9])]\<rparr>)"
    by (simp add: handleDeviceToRemoteChannel_iter_def chan_recv_def Rand_def conn_Write_def
        conn_closed_def NewServer_def new_chan_def)
  show ?thesis
    using
      zero_length_read_publishes_nothing [of 0 "NewServer (replicate 16 0) 4 4" "[]"]
      zero_length_read_publishes_nothing [of "- 1" "NewServer (replicate 16 0) 4 4" "[]"]
      zero_length_read_publishes_nothing
        [of _ "(NewServer (replicate 16 0) 4 4)\<lparr>device := new_tun\<lparr>pending := [[], [1]]\<rparr>\<rparr>" _ "[[1]]"]
      zero_length_read_publishes_nothing
        [of 3 "NewServer (replicate 16 0) 4 4" "[7, 8, 9]" _
            "(NewServer (replicate 16 0) 4 4)\<lparr>deviceToRemoteChannel :=
                 \<lparr>buf = [Some [0, 3, 7, 8, 9]], capacity = 4, closed = False, recvq = 0, handed = []\<rparr>\<rparr>"]
      p w
    by (simp add: NewServer_def new_tun_def new_chan_def)
qed

subsection \<open>C8: the mode option\<close>

text \<open>
  Claim C8 as stated fails: the values \<^verbatim>\<open>initiator\<close> and \<^verbatim>\<open>responder\<close> match no case of
  the switch, and no engine is built for them.
\<close>

theorem mode_initiator_responder_counterexample:
  "main_switch ''initiator'' = NoEngine \<and> main_switch ''responder'' = NoEngine"
  by (simp add: main_switch_def)

text \<open>
  Claim C8, amended. The recognized values of \<^verbatim>\<open>mode\<close> are \<^verbatim>\<open>client\<close> and \<^verbatim>\<open>server\<close>:
  the program builds the initiator engine (\<^verbatim>\<open>NewClient\<close>) for \<^verbatim>\<open>client\<close>, the responder
  engine (\<^verbatim>\<open>NewServer\<close>) for \<^verbatim>\<open>server\<close>, and no engine for any other value.
\<close>

theorem mode_client_server:
  "main_switch ''client'' = ClientEngine \<and> main_switch ''server'' = ServerEngine
   \<and> (main_switch mode \<noteq> NoEngine) = (mode = ''client'' \<or> mode = ''server'')"
  by (simp add: main_switch_def)

subsection \<open>Decoding one frame\<close>

lemma word16_le_0: "((w :: 16 word) \<le> 0) = (w = 0)"
  by simp

lemma take_store_0:
  "length src = n \<Longrightarrow> n \<le> length data \<Longrightarrow> take n (store data 0 src) = src"
  by (simp add: store_def min_absorb1)

lemma readFrame_eq:
  "readFrame rx e =
     (if length rx < 2 \<or> Uint16 (take 2 rx) = 0
         \<or> length rx < 2 + unat (Uint16 (take 2 rx))
      then None
      else Some (take (unat (Uint16 (take 2 rx))) (drop 2 rx),
                 drop (2 + unat (Uint16 (take 2 rx))) rx))"
proof (cases "length rx < 2")
  case True
  then have "ReadFull rx e (length (take 2 make_data)) = Inl (if e = EOF \<and> rx \<noteq> [] then ErrUnexpectedEOF else e)"
    by (simp add: ReadFull_def length_make_data)
  then show ?thesis using True by (simp add: readFrame_def)
next
  case False
  define L where "L = Uint16 (take 2 rx)"
  have l2: "length (take 2 make_data) = 2"
    by (simp add: length_make_data)
  have a: "ReadFull rx e 2 = Inr (take 2 rx, drop 2 rx)"
    using False by (simp add: ReadFull_def)
  have b: "take 2 (store make_data 0 (take 2 rx)) = take 2 rx"
    using False by (simp add: store_def length_make_data)
  have v: "unat L \<le> 65535"
    using unsigned_less [of L, where ?'a = nat] by simp
  have d: "length (take (unat L) (store make_data 0 (take 2 rx))) = unat L"
    using v by (simp add: length_store length_make_data)
  show ?thesis
  proof (cases "L = 0")
    case True
    then show ?thesis
      unfolding readFrame_def Let_def
      by (simp only: l2 a b sum.case prod.case L_def [symmetric] word16_le_0)
         (simp add: L_def [symmetric])
  next
    case nz: False
    show ?thesis
    proof (cases "length rx < 2 + unat L")
      case True
      then have "ReadFull (drop 2 rx) e (unat L)
          = Inl (if e = EOF \<and> drop 2 rx \<noteq> [] then ErrUnexpectedEOF else e)"
        using True False by (simp add: ReadFull_def)
      then show ?thesis
        unfolding readFrame_def Let_def
        using nz True False
        by (simp only: l2 a b d sum.case prod.case L_def [symmetric] word16_le_0)
           (simp add: L_def [symmetric])
    next
      case enough: False
      have e: "ReadFull (drop 2 rx) e (unat L)
          = Inr (take (unat L) (drop 2 rx), drop (2 + unat L) rx)"
        using enough False by (auto simp: ReadFull_def add.commute)
      have f: "take (unat L) (store (store make_data 0 (take 2 rx)) 0 (take (unat L) (drop 2 rx)))
          = take (unat L) (drop 2 rx)"
      proof (rule take_store_0)
        show "length (take (unat L) (drop 2 rx)) = unat L"
          using enough False by simp
        show "unat L \<le> length (store make_data 0 (take 2 rx))"
          using v by (simp add: length_store length_make_data)
      qed
      show ?thesis
        unfolding readFrame_def Let_def
        using nz enough False
        by (simp only: l2 a b d e f sum.case prod.case L_def [symmetric] word16_le_0)
           (simp add: L_def [symmetric])
    qed
  qed
qed

lemma readLoop_None:
  "readFrame rx e = None \<Longrightarrow> readLoop c rx e = Exit c"
  by (subst readLoop.simps) (simp add: readLoop_iter_def)

lemma readLoop_Some:
  "readFrame rx e = Some (p, rx2) \<Longrightarrow>
     readLoop c rx e =
       (case chan_try_send (remoteToDeviceChannel c) (Some p) of
          Sent ch \<Rightarrow> readLoop (c\<lparr>remoteToDeviceChannel := ch\<rparr>) rx2 e
        | WouldBlock \<Rightarrow> readLoop c rx2 e
        | SendOnClosed \<Rightarrow> Panics)"
  by (subst readLoop.simps) (simp add: readLoop_iter_def split: send_result.splits)

subsection \<open>C3: the carrier read loop\<close>

text \<open>
  Claim C3. Decoding in every carrier read loop reads exactly 2 header bytes; if the
  decoded length \<open>L\<close> is 0 the loop is left; otherwise exactly \<open>L\<close> payload bytes are
  read, and they are the \<open>L\<close> bytes that follow the header (first part). A stream that
  ends inside the header or inside the body makes \<^verbatim>\<open>io.ReadFull\<close> fail (second part) and
  the loop is left with nothing published: there is no successful short read (third
  part). On a whole frame the iteration offers exactly the decoded payload to the inbound
  queue and the loop goes on with the bytes after the frame (fourth part). Leaving the
  loop terminates the carrier: \<^verbatim>\<open>handleRemotePacket\<close> and \<^verbatim>\<open>handleConn\<close> return through
  their deferred \<^verbatim>\<open>RemoveAndClose\<close>, from whatever state the loop was left in (fifth and
  sixth part).
\<close>

theorem carrier_read_loop_decoding:
  "readFrame rx e =
     (if length rx < 2 \<or> Uint16 (take 2 rx) = 0
         \<or> length rx < 2 + unat (Uint16 (take 2 rx))
      then None
      else Some (take (unat (Uint16 (take 2 rx))) (drop 2 rx),
                 drop (2 + unat (Uint16 (take 2 rx))) rx))
   \<and> (length rx < n \<longrightarrow> isl (ReadFull rx e n))
   \<and> (readFrame rx e = None \<longrightarrow>
        readLoop_iter c rx e = Exit (c, rx) \<and> readLoop c rx e = Exit c
        \<and> Client_handleRemotePacket cl u rx e = Exit (RemoveAndClose u cl)
        \<and> (ReadFull rx0 e 16 = Inr (id' sv, rx) \<longrightarrow>
             Server_handleConn sv conn rx0 e fresh =
               Exit (RemoveAndClose fresh
                 (emit (EvPoolAdd conn)
                    (sv\<lparr>connections := connections sv @ [NewConnection conn fresh]\<rparr>)))))
   \<and> (readFrame rx e = Some (p, rx2) \<longrightarrow>
        readLoop_iter c rx e =
          (case chan_try_send (remoteToDeviceChannel c) (Some p) of
             Sent ch \<Rightarrow> Next (c\<lparr>remoteToDeviceChannel := ch\<rparr>, rx2)
           | WouldBlock \<Rightarrow> Next (c, rx2)
           | SendOnClosed \<Rightarrow> Panics)
        \<and> readLoop c rx e =
          (case chan_try_send (remoteToDeviceChannel c) (Some p) of
             Sent ch \<Rightarrow> readLoop (c\<lparr>remoteToDeviceChannel := ch\<rparr>) rx2 e
           | WouldBlock \<Rightarrow> readLoop c rx2 e
           | SendOnClosed \<Rightarrow> Panics))
   \<and> (readLoop cl rx e = Exit cl2 \<longrightarrow>
        Client_handleRemotePacket cl u rx e = Exit (RemoveAndClose u cl2))
   \<and> (ReadFull rx0 e 16 = Inr (id' sv, rx)
        \<and> readLoop (emit (EvPoolAdd conn)
                      (sv\<lparr>connections := connections sv @ [NewConnection conn fresh]\<rparr>)) rx e
            = Exit sv2 \<longrightarrow>
        Server_handleConn sv conn rx0 e fresh = Exit (RemoveAndClose fresh sv2))"
proof -
  have a: "length rx < n \<longrightarrow> isl (ReadFull rx e n)"
    by (simp add: ReadFull_def)
  have b: "readFrame rx e = None \<Longrightarrow> readLoop_iter c rx e = Exit (c, rx)"
    by (simp add: readLoop_iter_def)
  have d: "readFrame rx e = None \<Longrightarrow>
      Client_handleRemotePacket cl u rx e = Exit (RemoveAndClose u cl)"
    by (simp add: Client_handleRemotePacket_def readLoop_None)
  have f: "readFrame rx e = None \<Longrightarrow> ReadFull rx0 e 16 = Inr (id' sv, rx) \<Longrightarrow>
      Server_handleConn sv conn rx0 e fresh =
        Exit (RemoveAndClose fresh
          (emit (EvPoolAdd conn)
             (sv\<lparr>connections := connections sv @ [NewConnection conn fresh]\<rparr>)))"
    by (simp add: Server_handleConn_def pool_Add_def Add_def Let_def readLoop_None
        NewConnection_def)
  have g: "readFrame rx e = Some (p, rx2) \<Longrightarrow>
        readLoop_iter c rx e =
          (case chan_try_send (remoteToDeviceChannel c) (Some p) of
             Sent ch \<Rightarrow> Next (c\<lparr>remoteToDeviceChannel := ch\<rparr>, rx2)
           | WouldBlock \<Rightarrow> Next (c, rx2)
           | SendOnClosed \<Rightarrow> Panics)"
    by (simp add: readLoop_iter_def)
  have h: "readLoop cl rx e = Exit cl2 \<Longrightarrow>
        Client_handleRemotePacket cl u rx e = Exit (RemoveAndClose u cl2)"
    by (simp add: Client_handleRemotePacket_def)
  have i: "ReadFull rx0 e 16 = Inr (id' sv, rx) \<Longrightarrow>
        readLoop (emit (EvPoolAdd conn)
                      (sv\<lparr>connections := connections sv @ [NewConnection conn fresh]\<rparr>)) rx e
            = Exit sv2 \<Longrightarrow>
        Server_handleConn sv conn rx0 e fresh = Exit (RemoveAndClose fresh sv2)"
    by (simp add: Server_handleConn_def pool_Add_def Add_def Let_def NewConnection_def)
  show ?thesis
    using a b d f g h i readLoop_None [of rx e c] readLoop_Some [of rx e p rx2 c]
      readFrame_eq [of rx e]
    by blast
qed

theorem carrier_read_loop_decoding_witness:
  "readFrame [0, 0, 1] EOF = None
   \<and> readFrame [5] EOF = None
   \<and> readFrame [0, 3, 1] EOF = None
   \<and> readFrame [0, 2, 9, 8, 7] EOF = Some ([9, 8], [7])
   \<and> isl (ReadFull [5] EOF 2)
   \<and> readLoop (NewClient (replicate 16 7) ''h:1'' 1 4 4) [0, 3, 1] EOF
       = Exit (NewClient (replicate 16 7) ''h:1'' 1 4 4)
   \<and> Client_handleRemotePacket
        ((NewClient (replicate 16 7) ''h:1'' 1 4 4)
           \<lparr>connections := [\<lparr>Conn = 3, ID = replicate 16 1\<rparr>]\<rparr>)
        (replicate 16 1) [0, 3, 1] EOF
       = Exit ((NewClient (replicate 16 7) ''h:1'' 1 4 4)\<lparr>trace := [EvConnClose 3]\<rparr>)
   \<and> Server_handleConn (NewServer (replicate 16 7) 4 4) 3 (replicate 16 7 @ [0, 0]) EOF
        (replicate 16 1)
       = Exit ((NewServer (replicate 16 7) 4 4)\<lparr>trace := [EvPoolAdd 3, EvConnClose 3]\<rparr>)
   \<and> readLoop_iter (NewClient (replicate 16 7) ''h:1'' 1 4 4) [0, 2, 9, 8, 7] EOF
       = Next ((NewClient (replicate 16 7) ''h:1'' 1 4 4)
                 \<lparr>remoteToDeviceChannel :=
                    \<lparr>buf = [Some [9, 8]], capacity = 4, closed = False, recvq = 0, handed = []\<rparr>\<rparr>,
               [7])
   \<and> Client_handleRemotePacket
        ((NewClient (replicate 16 7) ''h:1'' 1 4 4)
           \<lparr>connections := [\<lparr>Conn = 3, ID = replicate 16 1\<rparr>]\<rparr>)
        (replicate 16 1) [0, 2, 9, 8, 0, 1, 5, 0] EOF
       = Exit ((NewClient (replicate 16 7) ''h:1'' 1 4 4)
                 \<lparr>remoteToDeviceChannel :=
                    \<lparr>buf = [Some [9, 8], Some [5]], capacity = 4, closed = False, recvq = 0,
                     handed = []\<rparr>,
                  trace := [EvConnClose 3]\<rparr>)"
proof -
  let ?C = "(NewClient (replicate 16 7) ''h:1'' 1 4 4)
           \<lparr>connections := [\<lparr>Conn = 3, ID = replicate 16 1\<rparr>]\<rparr>"
  let ?C1 = "?C\<lparr>remoteToDeviceChannel :=
                    \<lparr>buf = [Some [9, 8]], capacity = 4, closed = False, recvq = 0, handed = []\<rparr>\<rparr>"
  let ?C2 = "?C\<lparr>remoteToDeviceChannel :=
                    \<lparr>buf = [Some [9, 8], Some [5]], capacity = 4, closed = False, recvq = 0,
                     handed = []\<rparr>\<rparr>"
  have r: "ReadFull (replicate 16 7 @ [0, 0]) EOF 16
      = Inr (id' (NewServer (replicate 16 7) 4 4), [0, 0])"
    by (simp add: ReadFull_def NewServer_def)
  have old: "readFrame [0, 0, 1] EOF = None
   \<and> readFrame [5] EOF = None
   \<and> readFrame [0, 3, 1] EOF = None
   \<and> readFrame [0, 2, 9, 8, 7] EOF = Some ([9, 8], [7])
   \<and> isl (ReadFull [5] EOF 2)
   \<and> readLoop (NewClient (replicate 16 7) ''h:1'' 1 4 4) [0, 3, 1] EOF
       = Exit (NewClient (replicate 16 7) ''h:1'' 1 4 4)
   \<and> Client_handleRemotePacket ?C (replicate 16 1) [0, 3, 1] EOF
       = Exit ((NewClient (replicate 16 7) ''h:1'' 1 4 4)\<lparr>trace := [EvConnClose 3]\<rparr>)
   \<and> Server_handleConn (NewServer (replicate 16 7) 4 4) 3 (replicate 16 7 @ [0, 0]) EOF
        (replicate 16 1)
       = Exit ((NewServer (replicate 16 7) 4 4)\<lparr>trace := [EvPoolAdd 3, EvConnClose 3]\<rparr>)"
    using
      carrier_read_loop_decoding [of "[0, 0, 1]" EOF 0 "NewClient (replicate 16 7) ''h:1'' 1 4 4"]
      carrier_read_loop_decoding [of "[5]" EOF 2 "NewClient (replicate 16 7) ''h:1'' 1 4 4"]
      carrier_read_loop_decoding [of "[0, 3, 1]" EOF 0 "NewClient (replicate 16 7) ''h:1'' 1 4 4"
        ?C "replicate 16 1"]
      carrier_read_loop_decoding [of "[0, 2, 9, 8, 7]" EOF 0 "NewClient (replicate 16 7) ''h:1'' 1 4 4"]
      carrier_read_loop_decoding [of "[0, 0]" EOF 0 "NewClient (replicate 16 7) ''h:1'' 1 4 4"
        _ _ "replicate 16 7 @ [0, 0]" "NewServer (replicate 16 7) 4 4" 3 "replicate 16 1", simplified r]
    by (simp add: Uint16_def RemoveAndClose_def Remove_def conn_Close_def emit_def
        NewClient_def NewServer_def NewConnection_def)
  have it: "readLoop_iter (NewClient (replicate 16 7) ''h:1'' 1 4 4) [0, 2, 9, 8, 7] EOF
       = Next ((NewClient (replicate 16 7) ''h:1'' 1 4 4)
                 \<lparr>remoteToDeviceChannel :=
                    \<lparr>buf = [Some [9, 8]], capacity = 4, closed = False, recvq = 0, handed = []\<rparr>\<rparr>,
               [7])"
    using carrier_read_loop_decoding [of "[0, 2, 9, 8, 7]" EOF 0
        "NewClient (replicate 16 7) ''h:1'' 1 4 4" _ _ _ _ _ _ "[9, 8]" "[7]"]
    by (simp add: Uint16_def chan_try_send_def NewClient_def new_chan_def)
  have s1: "readLoop ?C [0, 2, 9, 8, 0, 1, 5, 0] EOF = readLoop ?C1 [0, 1, 5, 0] EOF"
    using carrier_read_loop_decoding [of "[0, 2, 9, 8, 0, 1, 5, 0]" EOF 0 ?C _ _ _ _ _ _
        "[9, 8]" "[0, 1, 5, 0]"]
    by (simp add: Uint16_def chan_try_send_def NewClient_def new_chan_def)
  have s2: "readLoop ?C1 [0, 1, 5, 0] EOF = readLoop ?C2 [0] EOF"
    using carrier_read_loop_decoding [of "[0, 1, 5, 0]" EOF 0 ?C1 _ _ _ _ _ _ "[5]" "[0]"]
    by (simp add: Uint16_def chan_try_send_def NewClient_def new_chan_def)
  have s3: "readLoop ?C2 [0] EOF = Exit ?C2"
    using carrier_read_loop_decoding [of "[0]" EOF 0 ?C2]
    by simp
  have run: "readLoop ?C [0, 2, 9, 8, 0, 1, 5, 0] EOF = Exit ?C2"
    using s1 s2 s3 by simp
  have h: "Client_handleRemotePacket ?C (replicate 16 1) [0, 2, 9, 8, 0, 1, 5, 0] EOF
       = Exit ((NewClient (replicate 16 7) ''h:1'' 1 4 4)
                 \<lparr>remoteToDeviceChannel :=
                    \<lparr>buf = [Some [9, 8], Some [5]], capacity = 4, closed = False, recvq = 0,
                     handed = []\<rparr>,
                  trace := [EvConnClose 3]\<rparr>)"
    using carrier_read_loop_decoding
        [where cl = ?C and rx = "[0, 2, 9, 8, 0, 1, 5, 0]" and e = EOF and ?cl2.0 = ?C2
           and u = "replicate 16 1",
         THEN conjunct2, THEN conjunct2, THEN conjunct2, THEN conjunct2, THEN conjunct1] run
    by (simp add: RemoveAndClose_def Remove_def conn_Close_def emit_def NewClient_def)
  show ?thesis using old it h by simp
qed

subsection \<open>C4: rejecting a connection\<close>

text \<open>
  Claim C4. When the first 16 bytes of an accepted connection do not arrive (the stream
  ends or the 3-second deadline passes before 16 bytes are there) or differ from the
  configured endpoint id, \<^verbatim>\<open>handleConn\<close> closes the connection and returns; the
  connection is never added to the pool (the only event is the close), so the pool and
  its count are what they were, and nothing reaches the inbound queue.
\<close>

theorem auth_rejection:
  assumes "length rx < 16 \<or> take 16 rx \<noteq> id' c"
  shows "Server_handleConn c conn rx e fresh = Exit (conn_Close conn c)
    \<and> connections (conn_Close conn c) = connections c
    \<and> Count (connections (conn_Close conn c)) = Count (connections c)
    \<and> trace (conn_Close conn c) = trace c @ [EvConnClose conn]
    \<and> conn_closed (conn_Close conn c) conn
    \<and> remoteToDeviceChannel (conn_Close conn c) = remoteToDeviceChannel c"
  using assms
  by (auto simp: Server_handleConn_def ReadFull_def conn_closed_def)

theorem auth_rejection_witness:
  "Server_handleConn (NewServer (replicate 16 7) 4 4) 3 (replicate 16 1 @ [0, 1, 9]) EOF (replicate 16 2)
     = Exit ((NewServer (replicate 16 7) 4 4)\<lparr>trace := [EvConnClose 3]\<rparr>)
   \<and> Server_handleConn (NewServer (replicate 16 7) 4 4) 3 [7, 7, 7] ErrDeadline (replicate 16 2)
     = Exit ((NewServer (replicate 16 7) 4 4)\<lparr>trace := [EvConnClose 3]\<rparr>)
   \<and> Count (connections ((NewServer (replicate 16 7) 4 4)\<lparr>trace := [EvConnClose 3]\<rparr>)) = 0"
  using
    auth_rejection [of "replicate 16 1 @ [0, 1, 9]" "NewServer (replicate 16 7) 4 4" 3 EOF "replicate 16 2"]
    auth_rejection [of "[7, 7, 7]" "NewServer (replicate 16 7) 4 4" 3 ErrDeadline "replicate 16 2"]
  by (simp add: conn_Close_def emit_def NewServer_def Count_def)

subsection \<open>Removing a carrier by its handle\<close>




subsection \<open>C6: a worker iteration\<close>



subsection \<open>The loops on a closed and empty queue\<close>

lemma worker_nil:
  assumes "buf (deviceToRemoteChannel c) = []" and "closed (deviceToRemoteChannel c)"
  shows "handleDeviceToRemoteChannel_iter k ok c = Next c"
  using assms by (simp add: handleDeviceToRemoteChannel_iter_def chan_recv_def)

lemma worker_loop_nil:
  assumes "buf (deviceToRemoteChannel c) = []" and "closed (deviceToRemoteChannel c)"
    and "status c"
  shows "handleDeviceToRemoteChannel sched c = None"
proof (induction sched)
  case Nil
  then show ?case using assms(3) by (simp add: handleDeviceToRemoteChannel.simps)
next
  case (Cons a sched)
  obtain k ok where a: "a = (k, ok)" by (cases a)
  show ?case
    using Cons assms(3) worker_nil [OF assms(1,2)]
    by (simp add: a handleDeviceToRemoteChannel.simps)
qed

lemma worker_loop_stopped:
  "\<not> status c \<Longrightarrow> handleDeviceToRemoteChannel sched c = Some (Exit c)"
  by (cases sched) (auto simp: handleDeviceToRemoteChannel.simps)

lemma writer_nil:
  assumes "buf (remoteToDeviceChannel c) = []" and "closed (remoteToDeviceChannel c)"
  shows "handleRemoteToDeviceChannel_iter c = Exit c"
  using assms by (simp add: handleRemoteToDeviceChannel_iter_def chan_recv_def)

subsection \<open>C10: nil from a closed queue\<close>

text \<open>
  Claim C10. A worker that receives nil from the closed and empty outbound queue takes
  \<^verbatim>\<open>continue\<close> with the state as it was: on every schedule the loop is still running
  while \<^verbatim>\<open>status\<close> is true, and it returns once \<^verbatim>\<open>status\<close> is false. The TUN writer that
  receives nil from the closed and empty inbound queue takes \<^verbatim>\<open>break\<close>: its loop returns in
  that very iteration, whatever \<^verbatim>\<open>status\<close> is.
\<close>

theorem nil_from_closed_queue:
  "(buf (deviceToRemoteChannel c) = [] \<and> closed (deviceToRemoteChannel c) \<longrightarrow>
      handleDeviceToRemoteChannel_iter k ok c = Next c
      \<and> handleDeviceToRemoteChannel sched c = (if status c then None else Some (Exit c)))
   \<and> (buf (remoteToDeviceChannel c) = [] \<and> closed (remoteToDeviceChannel c) \<longrightarrow>
      handleRemoteToDeviceChannel_iter c = Exit c
      \<and> handleRemoteToDeviceChannel (Suc n) c = Some (Exit c))"
proof -
  have "handleRemoteToDeviceChannel (Suc n) c = Some (Exit c)"
    if "buf (remoteToDeviceChannel c) = []" and "closed (remoteToDeviceChannel c)"
    using writer_nil [OF that] by (simp add: handleRemoteToDeviceChannel.simps)
  then show ?thesis
    using worker_nil [of c k ok] worker_loop_nil [of c sched] worker_loop_stopped [of c sched]
      writer_nil [of c]
    by auto
qed

theorem nil_from_closed_queue_witness:
  "handleDeviceToRemoteChannel [(0, True), (1, True), (2, True)]
      ((NewServer (replicate 16 0) 4 4)
         \<lparr>deviceToRemoteChannel := \<lparr>buf = [], capacity = 4, closed = True, recvq = 0, handed = []\<rparr>\<rparr>) = None
   \<and> handleDeviceToRemoteChannel [(0, True), (1, True), (2, True)]
      ((NewServer (replicate 16 0) 4 4)
         \<lparr>status := False,
          deviceToRemoteChannel := \<lparr>buf = [], capacity = 4, closed = True, recvq = 0, handed = []\<rparr>\<rparr>)
       = Some (Exit ((NewServer (replicate 16 0) 4 4)
         \<lparr>status := False,
          deviceToRemoteChannel := \<lparr>buf = [], capacity = 4, closed = True, recvq = 0, handed = []\<rparr>\<rparr>))
   \<and> handleRemoteToDeviceChannel 1
      ((NewServer (replicate 16 0) 4 4)
         \<lparr>remoteToDeviceChannel := \<lparr>buf = [], capacity = 4, closed = True, recvq = 0, handed = []\<rparr>\<rparr>)
       = Some (Exit ((NewServer (replicate 16 0) 4 4)
         \<lparr>remoteToDeviceChannel := \<lparr>buf = [], capacity = 4, closed = True, recvq = 0, handed = []\<rparr>\<rparr>))"
  using
    nil_from_closed_queue [of "(NewServer (replicate 16 0) 4 4)
         \<lparr>deviceToRemoteChannel := \<lparr>buf = [], capacity = 4, closed = True, recvq = 0, handed = []\<rparr>\<rparr>"
      0 True "[(0, True), (1, True), (2, True)]"]
    nil_from_closed_queue [of "(NewServer (replicate 16 0) 4 4)
         \<lparr>status := False,
          deviceToRemoteChannel := \<lparr>buf = [], capacity = 4, closed = True, recvq = 0, handed = []\<rparr>\<rparr>"
      0 True "[(0, True), (1, True), (2, True)]"]
    nil_from_closed_queue [of "(NewServer (replicate 16 0) 4 4)
         \<lparr>remoteToDeviceChannel := \<lparr>buf = [], capacity = 4, closed = True, recvq = 0, handed = []\<rparr>\<rparr>" _ _ _ 0]
  by (simp add: NewServer_def new_chan_def)

subsection \<open>The trace of Close\<close>

lemma fold_conn_Close_trace:
  "trace (fold (\<lambda>conn. conn_Close (Conn conn)) xs c)
     = trace c @ map (\<lambda>conn. EvConnClose (Conn conn)) xs"
  by (induction xs arbitrary: c) simp_all

lemma fold_conn_Close_chans:
  "deviceToRemoteChannel (fold (\<lambda>conn. conn_Close (Conn conn)) xs c) = deviceToRemoteChannel c"
  "remoteToDeviceChannel (fold (\<lambda>conn. conn_Close (Conn conn)) xs c) = remoteToDeviceChannel c"
  "status (fold (\<lambda>conn. conn_Close (Conn conn)) xs c) = status c"
  by (induction xs arbitrary: c) simp_all

lemma RemoveAndCloseAll_fields [simp]:
  "trace (RemoveAndCloseAll c)
     = trace c @ map (\<lambda>conn. EvConnClose (Conn conn)) (connections c) @ [EvCloseAll]"
  "connections (RemoveAndCloseAll c) = []"
  "deviceToRemoteChannel (RemoveAndCloseAll c) = deviceToRemoteChannel c"
  "remoteToDeviceChannel (RemoveAndCloseAll c) = remoteToDeviceChannel c"
  "status (RemoveAndCloseAll c) = status c"
  by (simp_all add: RemoveAndCloseAll_def fold_conn_Close_trace fold_conn_Close_chans)

lemma chan_drain_closed:
  "closed ch \<Longrightarrow> \<exists>ch'. chan_drain ch = Some ch' \<and> closed ch'"
  by (auto simp: chan_drain_def split: option.splits)

lemma Close_tail_trace:
  assumes "\<not> closed (deviceToRemoteChannel c)" and "\<not> closed (remoteToDeviceChannel c)"
  shows "\<exists>c'. Close_tail c = Exit c' \<and> status c' = status c \<and> connections c' = []
    \<and> trace c' = trace c @
        [EvDeviceClose, EvChanClose DeviceToRemote, EvChanClose RemoteToDevice]
        @ map (\<lambda>conn. EvConnClose (Conn conn)) (connections c)
        @ [EvCloseAll, EvWait, EvCloseAll, EvDrain DeviceToRemote, EvDrain RemoteToDevice]"
proof -
  define c1 where "c1 = close_device c"
  define c2 where "c2 = emit (EvChanClose DeviceToRemote)
      (c1\<lparr>deviceToRemoteChannel := (deviceToRemoteChannel c1)
          \<lparr>closed := True, recvq := 0,
           handed := handed (deviceToRemoteChannel c1)
                       @ replicate (recvq (deviceToRemoteChannel c1)) None\<rparr>\<rparr>)"
  define c3 where "c3 = emit (EvChanClose RemoteToDevice)
      (c2\<lparr>remoteToDeviceChannel := (remoteToDeviceChannel c2)
          \<lparr>closed := True, recvq := 0,
           handed := handed (remoteToDeviceChannel c2)
                       @ replicate (recvq (remoteToDeviceChannel c2)) None\<rparr>\<rparr>)"
  define c4 where "c4 = RemoveAndCloseAll (Wait (RemoveAndCloseAll c3))"
  have s1: "close_deviceToRemoteChannel c1 = Next c2"
    using assms(1) by (simp add: close_deviceToRemoteChannel_def chan_close_def c1_def c2_def
        close_device_def)
  have s2: "close_remoteToDeviceChannel c2 = Next c3"
    using assms(2) by (simp add: close_remoteToDeviceChannel_def chan_close_def c1_def c2_def
        c3_def close_device_def)
  have d4: "closed (deviceToRemoteChannel c4)"
    by (simp add: c4_def Wait_def c3_def c2_def)
  then obtain q where q: "chan_drain (deviceToRemoteChannel c4) = Some q" "closed q"
    using chan_drain_closed by blast
  define c5 where "c5 = emit (EvDrain DeviceToRemote) (c4\<lparr>deviceToRemoteChannel := q\<rparr>)"
  have s3: "drain_deviceToRemoteChannel c4 = Next c5"
    by (simp add: drain_deviceToRemoteChannel_def q c5_def)
  have "closed (remoteToDeviceChannel c5)"
    by (simp add: c5_def c4_def Wait_def c3_def)
  then obtain r where r: "chan_drain (remoteToDeviceChannel c5) = Some r" "closed r"
    using chan_drain_closed by blast
  define c6 where "c6 = emit (EvDrain RemoteToDevice) (c5\<lparr>remoteToDeviceChannel := r\<rparr>)"
  have s4: "drain_remoteToDeviceChannel c5 = Next c6"
    by (simp add: drain_remoteToDeviceChannel_def r c6_def)
  have run: "Close_tail c = Exit c6"
    unfolding Close_tail_def
    by (simp add: andThen_def c1_def [symmetric] s1 s2 c4_def [symmetric] s3 s4)
  have tr: "trace c6 = trace c @
        [EvDeviceClose, EvChanClose DeviceToRemote, EvChanClose RemoteToDevice]
        @ map (\<lambda>conn. EvConnClose (Conn conn)) (connections c)
        @ [EvCloseAll, EvWait, EvCloseAll, EvDrain DeviceToRemote, EvDrain RemoteToDevice]"
    by (simp add: c6_def c5_def c4_def Wait_def c3_def c2_def c1_def close_device_def)
  have st: "status c6 = status c" "connections c6 = []"
    by (simp_all add: c6_def c5_def c4_def Wait_def c3_def c2_def c1_def close_device_def)
  show ?thesis using run tr st by blast
qed

subsection \<open>C7: the order of shutdown\<close>

text \<open>
  Claim C7 as stated fails: both queues are closed right after the TUN handle, before
  the carriers are closed and before the tasks are joined; only their draining comes
  after the join. The initiator has no step of its own that stops the dial maintainer
  (the maintainer sees \<^verbatim>\<open>status\<close>), and the pool is emptied a second time after the
  join.
\<close>

theorem shutdown_order_counterexample:
  "Server_Close
     ((NewServer (replicate 16 0) 1 1)
        \<lparr>connections := [\<lparr>Conn = 3, ID = replicate 16 1\<rparr>],
         deviceToRemoteChannel := \<lparr>buf = [Some [0, 1, 9]], capacity = 1, closed = False, recvq = 0, handed = []\<rparr>\<rparr>)
   = Exit \<lparr>id' = replicate 16 0,
           device = \<lparr>pending = [], written = [], tun_closed = True\<rparr>,
           status = False, connections = [],
           deviceToRemoteChannel = \<lparr>buf = [], capacity = 1, closed = True, recvq = 0, handed = []\<rparr>,
           remoteToDeviceChannel = \<lparr>buf = [], capacity = 1, closed = True, recvq = 0, handed = []\<rparr>,
           wire = [],
           trace = [EvStatus False, EvListenerClose, EvDeviceClose,
                    EvChanClose DeviceToRemote, EvChanClose RemoteToDevice, EvConnClose 3,
                    EvCloseAll, EvWait, EvCloseAll,
                    EvDrain DeviceToRemote, EvDrain RemoteToDevice],
           ln = ListenerClosed\<rparr>
   \<and> takeWhile (\<lambda>ev. ev \<noteq> EvWait)
        [EvStatus False, EvListenerClose, EvDeviceClose,
         EvChanClose DeviceToRemote, EvChanClose RemoteToDevice, EvConnClose 3,
         EvCloseAll, EvWait, EvCloseAll,
         EvDrain DeviceToRemote, EvDrain RemoteToDevice]
      = [EvStatus False, EvListenerClose, EvDeviceClose,
         EvChanClose DeviceToRemote, EvChanClose RemoteToDevice, EvConnClose 3, EvCloseAll]
   \<and> Client_Close (NewClient (replicate 16 0) ''h:1'' 1 1 1)
   = Exit \<lparr>id' = replicate 16 0,
           device = \<lparr>pending = [], written = [], tun_closed = True\<rparr>,
           status = False, connections = [],
           deviceToRemoteChannel = \<lparr>buf = [], capacity = 1, closed = True, recvq = 0, handed = []\<rparr>,
           remoteToDeviceChannel = \<lparr>buf = [], capacity = 1, closed = True, recvq = 0, handed = []\<rparr>,
           wire = [],
           trace = [EvStatus False, EvDeviceClose,
                    EvChanClose DeviceToRemote, EvChanClose RemoteToDevice,
                    EvCloseAll, EvWait, EvCloseAll,
                    EvDrain DeviceToRemote, EvDrain RemoteToDevice],
           endpoint = ''h:1'', connectionsCount = 1\<rparr>"
  by (simp add: Server_Close_def Client_Close_def Close_tail_def andThen_def set_status_def
      ln_Close_def close_device_def close_deviceToRemoteChannel_def
      close_remoteToDeviceChannel_def chan_close_def RemoveAndCloseAll_def Wait_def
      drain_deviceToRemoteChannel_def drain_remoteToDeviceChannel_def chan_drain_def
      conn_Close_def emit_def device_Close_def NewServer_def NewClient_def new_chan_def
      new_tun_def)

text \<open>
  Claim C7, amended. \<^verbatim>\<open>Close\<close> performs its steps in this order: set \<^verbatim>\<open>status\<close> to false;
  close the listener (responder only); close the TUN handle; close the outbound and then
  the inbound queue; close all carriers and empty the pool; join all tasks; close all
  carriers once more; and only after that drain the outbound and then the inbound
  queue. (On queues that are still open; closing a closed queue panics.)
\<close>

theorem shutdown_order:
  "(\<not> closed (deviceToRemoteChannel s) \<and> \<not> closed (remoteToDeviceChannel s) \<longrightarrow>
      (\<exists>s'. Server_Close s = Exit s' \<and> \<not> status s' \<and> connections s' = []
         \<and> trace s' = trace s @
             [EvStatus False, EvListenerClose, EvDeviceClose,
              EvChanClose DeviceToRemote, EvChanClose RemoteToDevice]
             @ map (\<lambda>conn. EvConnClose (Conn conn)) (connections s)
             @ [EvCloseAll, EvWait, EvCloseAll, EvDrain DeviceToRemote, EvDrain RemoteToDevice]))
   \<and> (\<not> closed (deviceToRemoteChannel c) \<and> \<not> closed (remoteToDeviceChannel c) \<longrightarrow>
      (\<exists>c'. Client_Close c = Exit c' \<and> \<not> status c' \<and> connections c' = []
         \<and> trace c' = trace c @
             [EvStatus False, EvDeviceClose,
              EvChanClose DeviceToRemote, EvChanClose RemoteToDevice]
             @ map (\<lambda>conn. EvConnClose (Conn conn)) (connections c)
             @ [EvCloseAll, EvWait, EvCloseAll, EvDrain DeviceToRemote, EvDrain RemoteToDevice]))"
proof -
  have a: "\<exists>s'. Server_Close s = Exit s' \<and> \<not> status s' \<and> connections s' = []
         \<and> trace s' = trace s @
             [EvStatus False, EvListenerClose, EvDeviceClose,
              EvChanClose DeviceToRemote, EvChanClose RemoteToDevice]
             @ map (\<lambda>conn. EvConnClose (Conn conn)) (connections s)
             @ [EvCloseAll, EvWait, EvCloseAll, EvDrain DeviceToRemote, EvDrain RemoteToDevice]"
    if "\<not> closed (deviceToRemoteChannel s)" and "\<not> closed (remoteToDeviceChannel s)"
    using Close_tail_trace [of "ln_Close (set_status False s)"] that
    by (simp add: Server_Close_def ln_Close_def set_status_def)
  have b: "\<exists>c'. Client_Close c = Exit c' \<and> \<not> status c' \<and> connections c' = []
         \<and> trace c' = trace c @
             [EvStatus False, EvDeviceClose,
              EvChanClose DeviceToRemote, EvChanClose RemoteToDevice]
             @ map (\<lambda>conn. EvConnClose (Conn conn)) (connections c)
             @ [EvCloseAll, EvWait, EvCloseAll, EvDrain DeviceToRemote, EvDrain RemoteToDevice]"
    if "\<not> closed (deviceToRemoteChannel c)" and "\<not> closed (remoteToDeviceChannel c)"
    using Close_tail_trace [of "set_status False c"] that
    by (simp add: Client_Close_def set_status_def)
  show ?thesis using a b by blast
qed

theorem shutdown_order_witness:
  "(\<exists>s'. Server_Close ((NewServer (replicate 16 0) 1 1)\<lparr>connections := [\<lparr>Conn = 3, ID = replicate 16 1\<rparr>]\<rparr>)
            = Exit s' \<and> \<not> status s' \<and> connections s' = []
         \<and> trace s' =
             [EvStatus False, EvListenerClose, EvDeviceClose,
              EvChanClose DeviceToRemote, EvChanClose RemoteToDevice, EvConnClose 3,
              EvCloseAll, EvWait, EvCloseAll, EvDrain DeviceToRemote, EvDrain RemoteToDevice])
   \<and> (\<exists>c'. Client_Close ((NewClient (replicate 16 0) ''h:1'' 1 1 1)\<lparr>connections := [\<lparr>Conn = 3, ID = replicate 16 1\<rparr>]\<rparr>)
            = Exit c' \<and> \<not> status c' \<and> connections c' = []
         \<and> trace c' =
             [EvStatus False, EvDeviceClose,
              EvChanClose DeviceToRemote, EvChanClose RemoteToDevice, EvConnClose 3,
              EvCloseAll, EvWait, EvCloseAll, EvDrain DeviceToRemote, EvDrain RemoteToDevice])"
  using shutdown_order
    [of "(NewServer (replicate 16 0) 1 1)\<lparr>connections := [\<lparr>Conn = 3, ID = replicate 16 1\<rparr>]\<rparr>"
        "(NewClient (replicate 16 0) ''h:1'' 1 1 1)\<lparr>connections := [\<lparr>Conn = 3, ID = replicate 16 1\<rparr>]\<rparr>"]
  by (simp add: NewServer_def NewClient_def new_chan_def)

end
